theory Spec2Isabelle
  imports Complex_Main "HOL-Library.Word"
begin

section \<open>Python and MicroPython primitives used by the sources\<close>

text \<open>
  Python integers are unbounded and are modelled as \<open>int\<close>. Every exception the sources
  can raise is a value of \<open>py_error\<close>; a function that may raise returns
  \<open>py_error + 'a\<close>.

  The sources run under MicroPython on the RP2040 (they import \<open>machine\<close> and \<open>rp2\<close>),
  where a float is an IEEE single-precision number. \<open>calculate_bpm\<close> rounds a float
  quotient to the integer it returns, so its conversions and divisions round as the
  device does (\<open>fl32\<close> below). The statistics of \<open>calculate_hrv\<close>, which are floats
  themselves, the calibration threshold and the smoothing of \<open>process_sample\<close> are
  taken over the reals.
\<close>

datatype py_error =
    ZeroDivisionError
  | ValueError
  | TypeError
  | KeyError
  | AttributeError
  | OSError
  | WiFiNotConnected

type_synonym u16 = "16 word"

text \<open>\<open>int(x)\<close> on a float truncates towards zero.\<close>

definition py_int :: "real \<Rightarrow> int" where
  "py_int x = (if 0 \<le> x then \<lfloor>x\<rfloor> else \<lceil>x\<rceil>)"

text \<open>\<open>round(x)\<close> with one argument: the nearest integer, ties to the even one.\<close>

definition py_round :: "real \<Rightarrow> int" where
  "py_round x =
     (let f = \<lfloor>x\<rfloor>; d = x - of_int f
      in if d < 1 / 2 then f
         else if 1 / 2 < d then f + 1
         else if even f then f else f + 1)"

text \<open>
  Rounding a real number to the nearest binary float with a significand of \<open>p\<close> bits,
  ties to the even significand, as IEEE 754 does by default. With \<open>e\<close> the binary
  exponent of \<open>x\<close>, the floats near \<open>x\<close> are the multiples of \<open>ulp = 2 ^ (e + 1 - p)\<close>.
  The exponent is not bounded: the values of \<open>calculate_bpm\<close> on accepted intervals
  stay far from overflow and underflow.
\<close>

definition round_to_precision :: "nat \<Rightarrow> real \<Rightarrow> real" where
  "round_to_precision p x =
     (if x = 0 then 0
      else
        let e = \<lfloor>log 2 \<bar>x\<bar>\<rfloor>;
            ulp = 2 powr of_int (e + 1 - int p)
        in of_int (py_round (x / ulp)) * ulp)"

text \<open>Single precision: 24 bits of significand.\<close>

definition fl32 :: "real \<Rightarrow> real" where
  "fl32 x = round_to_precision 24 x"

text \<open>The conversion of an integer to a float, as in \<open>float(n)\<close>.\<close>

definition float_of_int :: "int \<Rightarrow> real" where
  "float_of_int n = fl32 (real_of_int n)"

text \<open>The float division \<open>a / b\<close>: it raises on a zero divisor and rounds the quotient.\<close>

definition float_truediv :: "real \<Rightarrow> real \<Rightarrow> py_error + real" where
  "float_truediv a b = (if b = 0 then Inl ZeroDivisionError else Inr (fl32 (a / b)))"

text \<open>
  \<open>time.ticks_ms()\<close> counts modulo \<open>TICKS_PERIOD\<close>, and \<open>time.ticks_diff(a, b)\<close> is the
  signed difference of two readings, taken in the half-open range
  \<open>[-TICKS_PERIOD/2, TICKS_PERIOD/2)\<close>, as MicroPython defines it.
\<close>

definition TICKS_PERIOD :: int where
  "TICKS_PERIOD = 2 ^ 30"

definition ticks_diff :: "int \<Rightarrow> int \<Rightarrow> int" where
  "ticks_diff a b =
     ((a - b + TICKS_PERIOD div 2) mod TICKS_PERIOD) - TICKS_PERIOD div 2"


section \<open>core/hrm.py: BPM from intervals\<close>

text \<open>
  \<^verbatim>\<open>
  def calculate_bpm(intervals):
      if not intervals:
          return 0
      avg_interval = sum(intervals) / len(intervals)
      return round(60000 / avg_interval)
  \<close>
  \<open>sum(intervals) / len(intervals)\<close> divides two integers: MicroPython converts both to
  floats and divides these. \<open>60000 / avg_interval\<close> converts 60000 and divides. Each
  conversion and each division rounds to single precision, and a division by zero
  raises \<open>ZeroDivisionError\<close>. \<open>round\<close> takes the float quotient to the nearest integer,
  ties to even.
\<close>

definition calculate_bpm :: "int list \<Rightarrow> py_error + int" where
  "calculate_bpm intervals =
     (if intervals = [] then Inr 0
      else
        (case float_truediv (float_of_int (sum_list intervals))
                (float_of_int (int (length intervals))) of
           Inl e \<Rightarrow> Inl e
         | Inr avg_interval \<Rightarrow>
             (case float_truediv (float_of_int 60000) avg_interval of
                Inl e \<Rightarrow> Inl e
              | Inr ratio \<Rightarrow> Inr (py_round ratio))))"


section \<open>core/hrv.py: HRV statistics\<close>

text \<open>
  \<^verbatim>\<open>
  def calculate_hrv(intervals):
      if len(intervals) < 2:
          return 0, 0, 0, 0
      mean_ppi = sum(intervals) / len(intervals)
      mean_hr = 60000 / mean_ppi
      rmssd = (sum((intervals[i] - intervals[i - 1]) ** 2
                   for i in range(1, len(intervals))) / (len(intervals) - 1)) ** 0.5
      sdnn = (sum((x - mean_ppi) ** 2 for x in intervals) / (len(intervals) - 1)) ** 0.5
      return mean_hr, mean_ppi, rmssd, sdnn
  \<close>
  The result tuple is \<open>(mean_hr, mean_ppi, rmssd, sdnn)\<close>. Both radicands are sums of
  squares divided by a positive count, so \<open>** 0.5\<close> is the real square root.
  \<open>60000 / mean_ppi\<close> raises \<open>ZeroDivisionError\<close> when the intervals sum to zero.
\<close>

definition calculate_hrv :: "int list \<Rightarrow> py_error + (real \<times> real \<times> real \<times> real)" where
  "calculate_hrv intervals =
     (if length intervals < 2 then Inr (0, 0, 0, 0)
      else
        let mean_ppi = real_of_int (sum_list intervals) / real (length intervals)
        in if mean_ppi = 0 then Inl ZeroDivisionError
           else
             let mean_hr = 60000 / mean_ppi;
                 rmssd = sqrt (real_of_int
                           (sum_list (map (\<lambda>i. (intervals ! i - intervals ! (i - 1)) ^ 2)
                                          [1..<length intervals]))
                           / (real (length intervals) - 1));
                 sdnn = sqrt (sum_list (map (\<lambda>x. (real_of_int x - mean_ppi) ^ 2) intervals)
                           / (real (length intervals) - 1))
             in Inr (mean_hr, mean_ppi, rmssd, sdnn))"


section \<open>core/hrm.py: threshold calibration\<close>

text \<open>
  \<^verbatim>\<open>
  min_val = 65535
  max_val = 0
  while time.ticks_diff(time.ticks_ms(), start) < calibration_time_ms:
      value = pulse_sensor.read_u16()
      min_val = min(min_val, value)
      max_val = max(max_val, value)
      time.sleep_ms(2)
  threshold = min_val + (max_val - min_val) * 0.7
  return int(threshold)
  \<close>
  The clock decides how many samples the window holds; the model takes the samples
  that \<open>read_u16\<close> returned during the window, in order.
\<close>

fun calibrate_loop :: "int \<Rightarrow> int \<Rightarrow> u16 list \<Rightarrow> int \<times> int" where
  "calibrate_loop min_val max_val [] = (min_val, max_val)"
| "calibrate_loop min_val max_val (value # rest) =
     calibrate_loop (min min_val (uint value)) (max max_val (uint value)) rest"

definition calibrate_threshold :: "u16 list \<Rightarrow> int" where
  "calibrate_threshold samples =
     (case calibrate_loop 65535 0 samples of
        (min_val, max_val) \<Rightarrow>
          py_int (real_of_int min_val + real_of_int (max_val - min_val) * 0.7))"


section \<open>Beat detection and interval acquisition\<close>

text \<open>
  A sampling loop reads one value per iteration and, when it timestamps a beat, reads
  the clock. A sample of the model is the pair of the value read and the reading
  \<open>time.ticks_ms()\<close> gives in that iteration.
\<close>

type_synonym sample = "u16 \<times> int"

definition plausible :: "int \<Rightarrow> bool" where
  "plausible d \<longleftrightarrow> 250 < d \<and> d < 2000"

subsection \<open>core/hrm.py: \<open>measure_intervals\<close>\<close>

text \<open>
  \<^verbatim>\<open>
  if last_value < threshold and value >= threshold:
      window.append(time.ticks_ms())
      if len(window) > 20:
          window.pop(0)
  last_value = value
  \<close>
  and, after the loop,
  \<^verbatim>\<open>
  if len(window) >= 2:
      intervals = [time.ticks_diff(window[i], window[i - 1]) for i in range(1, len(window))]
      return [d for d in intervals if 250 < d < 2000]
  else:
      return []
  \<close>
\<close>

fun measure_loop :: "int \<Rightarrow> int \<Rightarrow> int list \<Rightarrow> sample list \<Rightarrow> int list" where
  "measure_loop threshold last_value window [] = window"
| "measure_loop threshold last_value window ((v, now) # rest) =
     (let value = uint v;
          window' =
            (if last_value < threshold \<and> threshold \<le> value
             then (let w = window @ [now] in if 20 < length w then tl w else w)
             else window)
      in measure_loop threshold value window' rest)"

definition measure_intervals_from :: "int \<Rightarrow> sample list \<Rightarrow> int list" where
  "measure_intervals_from threshold samples =
     (let window = measure_loop threshold 0 [] samples
      in if 2 \<le> length window
         then filter (\<lambda>d. 250 < d \<and> d < 2000)
                (map (\<lambda>i. ticks_diff (window ! i) (window ! (i - 1))) [1..<length window])
         else [])"

definition measure_intervals :: "u16 list \<Rightarrow> sample list \<Rightarrow> int list" where
  "measure_intervals calibration samples =
     measure_intervals_from (calibrate_threshold calibration) samples"

subsection \<open>ui/layout_animations.py: \<open>show_countdown_animation_kubios\<close>\<close>

text \<open>
  \<^verbatim>\<open>
  if last_value < threshold and value >= threshold:
      now = time.ticks_ms()
      beat_times.append(now)
      if len(beat_times) > 1:
          interval = time.ticks_diff(beat_times[-1], beat_times[-2])
          if 250 < interval < 2000:
              intervals.append(interval)
  last_value = value
  \<close>
\<close>

definition append_beat :: "int list \<Rightarrow> int list \<Rightarrow> int \<Rightarrow> int list \<times> int list" where
  "append_beat beat_times intervals now =
     (let beat_times' = beat_times @ [now]
      in if 1 < length beat_times'
         then (let interval = ticks_diff (beat_times' ! (length beat_times' - 1))
                                         (beat_times' ! (length beat_times' - 2))
               in if 250 < interval \<and> interval < 2000
                  then (beat_times', intervals @ [interval])
                  else (beat_times', intervals))
         else (beat_times', intervals))"

fun kubios_loop :: "int \<Rightarrow> int \<Rightarrow> int list \<Rightarrow> int list \<Rightarrow> sample list \<Rightarrow> int list" where
  "kubios_loop threshold last_value beat_times intervals [] = intervals"
| "kubios_loop threshold last_value beat_times intervals ((v, now) # rest) =
     (let value = uint v
      in if last_value < threshold \<and> threshold \<le> value
         then (case append_beat beat_times intervals now of
                 (beat_times', intervals') \<Rightarrow>
                   kubios_loop threshold value beat_times' intervals' rest)
         else kubios_loop threshold value beat_times intervals rest)"

definition show_countdown_animation_kubios_from :: "int \<Rightarrow> sample list \<Rightarrow> int list" where
  "show_countdown_animation_kubios_from threshold samples =
     kubios_loop threshold 0 [] [] samples"

definition show_countdown_animation_kubios :: "u16 list \<Rightarrow> sample list \<Rightarrow> int list" where
  "show_countdown_animation_kubios calibration samples =
     show_countdown_animation_kubios_from (calibrate_threshold calibration) samples"

subsection \<open>ui/layout_animations.py: \<open>process_sample\<close> and \<open>show_countdown_animation\<close>\<close>

text \<open>
  \<^verbatim>\<open>
  def process_sample(raw, smoothed, threshold, last_value, beat_times):
      smoothed = int(0.2 * raw + 0.8 * smoothed)
      beat = False
      interval = None
      if last_value < threshold and smoothed >= threshold:
          beat = True
          now = time.ticks_ms()
          beat_times.append(now)
          if len(beat_times) > 1:
              interval = time.ticks_diff(beat_times[-1], beat_times[-2])
              if not (250 < interval < 2000):
                  interval = None
      return smoothed, beat, interval
  \<close>
  The list \<open>beat_times\<close> is mutated in place; the model returns it as a fourth
  component. The caller keeps \<open>last_value = smoothed\<close> and appends with
  \<open>if interval: intervals.append(interval)\<close>, which also skips an interval of 0.
\<close>

definition process_sample ::
  "int \<Rightarrow> int \<Rightarrow> int \<Rightarrow> int \<Rightarrow> int list \<Rightarrow> int \<Rightarrow> int \<times> bool \<times> int option \<times> int list" where
  "process_sample raw smoothed threshold last_value beat_times now =
     (let smoothed' = py_int (0.2 * real_of_int raw + 0.8 * real_of_int smoothed)
      in if last_value < threshold \<and> threshold \<le> smoothed'
         then
           (let beat_times' = beat_times @ [now]
            in if 1 < length beat_times'
               then (let interval = ticks_diff (beat_times' ! (length beat_times' - 1))
                                               (beat_times' ! (length beat_times' - 2))
                     in if \<not> (250 < interval \<and> interval < 2000)
                        then (smoothed', True, None, beat_times')
                        else (smoothed', True, Some interval, beat_times'))
               else (smoothed', True, None, beat_times'))
         else (smoothed', False, None, beat_times))"

fun animation_loop ::
  "int \<Rightarrow> int \<Rightarrow> int \<Rightarrow> int list \<Rightarrow> int list \<Rightarrow> sample list \<Rightarrow> int list" where
  "animation_loop threshold smoothed last_value beat_times intervals [] = intervals"
| "animation_loop threshold smoothed last_value beat_times intervals ((raw, now) # rest) =
     (case process_sample (uint raw) smoothed threshold last_value beat_times now of
        (smoothed', beat, interval, beat_times') \<Rightarrow>
          animation_loop threshold smoothed' smoothed' beat_times'
            (case interval of
               None \<Rightarrow> intervals
             | Some d \<Rightarrow> if d \<noteq> 0 then intervals @ [d] else intervals)
            rest)"

definition show_countdown_animation :: "u16 list \<Rightarrow> sample list \<Rightarrow> int list" where
  "show_countdown_animation calibration samples =
     animation_loop (calibrate_threshold calibration) 0 0 [] [] samples"

subsection \<open>core/hrm.py: \<open>read_live_signal\<close>, and the loops of app/handle_hr.py and app/handle_hrv.py\<close>

text \<open>
  \<^verbatim>\<open>
  def read_live_signal(threshold):
      value = read_sample()
      if value is None:
          return 0, False
      beat = value > threshold
      return value, beat
  \<close>
  \<open>read_sample()\<close> gives \<open>None\<close> when the sampler's FIFO is empty. The module-level
  \<open>_last_value\<close> is never read or written by the function.
\<close>

fun read_live_signal :: "int \<Rightarrow> u16 option \<Rightarrow> int \<times> bool" where
  "read_live_signal threshold None = (0, False)"
| "read_live_signal threshold (Some value) = (uint value, threshold < uint value)"

text \<open>
  \<open>handle_measure_hr\<close> and \<open>handle_basic_hrv\<close> run the same loop:
  \<^verbatim>\<open>
  value, beat = read_live_signal(threshold)
  ...
  if beat:
      now = time.ticks_ms()
      beats.append(now)
      if len(beats) > 1:
          interval = time.ticks_diff(beats[-1], beats[-2])
          if 250 < interval < 2000:
              intervals.append(interval)
  bpm = calculate_bpm(intervals[-5:])
  \<close>
  The call of \<open>calculate_bpm\<close> in the loop can raise, which ends the loop.
\<close>

type_synonym live_sample = "u16 option \<times> int"

fun live_loop :: "int \<Rightarrow> int list \<Rightarrow> int list \<Rightarrow> live_sample list \<Rightarrow> py_error + int list" where
  "live_loop threshold beats intervals [] = Inr intervals"
| "live_loop threshold beats intervals ((s, now) # rest) =
     (case (if snd (read_live_signal threshold s)
            then append_beat beats intervals now
            else (beats, intervals)) of
        (beats', intervals') \<Rightarrow>
          (case calculate_bpm (drop (length intervals' - 5) intervals') of
             Inl e \<Rightarrow> Inl e
           | Inr bpm \<Rightarrow> live_loop threshold beats' intervals' rest))"

text \<open>The intervals the 30 s window of either handler collects.\<close>

definition live_intervals :: "u16 list \<Rightarrow> live_sample list \<Rightarrow> py_error + int list" where
  "live_intervals calibration samples =
     live_loop (calibrate_threshold calibration) [] [] samples"

text \<open>\<open>handle_measure_hr\<close>: the value handed to \<open>show_hr_screen\<close>.\<close>

definition handle_measure_hr :: "u16 list \<Rightarrow> live_sample list \<Rightarrow> py_error + int" where
  "handle_measure_hr calibration samples =
     (case live_intervals calibration samples of
        Inl e \<Rightarrow> Inl e
      | Inr intervals \<Rightarrow> calculate_bpm intervals)"


section \<open>Parsed JSON values\<close>

text \<open>
  What \<open>ujson.loads\<close> returns and \<open>ujson.dumps\<close> takes: \<open>None\<close>, a bool, a number, a
  string, a list or a dict with string keys. A dict is an association list read with
  \<open>map_of\<close>.
\<close>

datatype json =
    JNull
  | JBool bool
  | JNum real
  | JStr string
  | JArr "json list"
  | JObj "(string \<times> json) list"

type_synonym py_dict = "(string \<times> json) list"

text \<open>\<open>d.get(k, default)\<close> on a dict.\<close>

definition dict_get :: "py_dict \<Rightarrow> string \<Rightarrow> json \<Rightarrow> json" where
  "dict_get d k dflt = (case map_of d k of None \<Rightarrow> dflt | Some v \<Rightarrow> v)"

text \<open>\<open>x.get(k, default)\<close> on any value: only a dict has the method.\<close>

fun py_get :: "json \<Rightarrow> string \<Rightarrow> json \<Rightarrow> py_error + json" where
  "py_get (JObj d) k dflt = Inr (dict_get d k dflt)"
| "py_get _ k dflt = Inl AttributeError"

text \<open>\<open>isinstance(x, dict)\<close>.\<close>

fun is_dict :: "json \<Rightarrow> bool" where
  "is_dict (JObj d) = True"
| "is_dict _ = False"

text \<open>\<open>k in s\<close> on strings: \<open>k\<close> occurs in \<open>s\<close> as a contiguous substring.\<close>

fun substring_in :: "string \<Rightarrow> string \<Rightarrow> bool" where
  "substring_in k [] = (k = [])"
| "substring_in k (c # cs) = (take (length k) (c # cs) = k \<or> substring_in k cs)"

text \<open>
  \<open>k in x\<close> for a string \<open>k\<close>: a key test on a dict, an element test on a list, a
  substring test on a string, and \<open>TypeError\<close> on anything else.
\<close>

fun py_in :: "string \<Rightarrow> json \<Rightarrow> py_error + bool" where
  "py_in k (JObj d) = Inr (k \<in> set (map fst d))"
| "py_in k (JArr xs) = Inr (JStr k \<in> set xs)"
| "py_in k (JStr s) = Inr (substring_in k s)"
| "py_in k _ = Inl TypeError"

text \<open>\<open>x[k]\<close> for a string \<open>k\<close>: only a dict can be indexed by a string.\<close>

fun py_getitem :: "json \<Rightarrow> string \<Rightarrow> py_error + json" where
  "py_getitem (JObj d) k = (case map_of d k of None \<Rightarrow> Inl KeyError | Some v \<Rightarrow> Inr v)"
| "py_getitem _ k = Inl TypeError"


section \<open>cloud/kubios_utils.py: the request payload\<close>

text \<open>
  \<^verbatim>\<open>
  def format_kubios_payload(ppi_list):
      mac_no_colons = MAC_ADDRESS.replace(":", "")
      return {"type": "RRI", "mac": mac_no_colons, "data": ppi_list,
              "analysis": {"type": "readiness"}}
  \<close>
  \<open>MAC_ADDRESS\<close> comes from \<open>core.config\<close> and is a parameter here.
\<close>

definition format_kubios_payload :: "string \<Rightarrow> json \<Rightarrow> json" where
  "format_kubios_payload MAC_ADDRESS ppi_list =
     (let mac_no_colons = filter (\<lambda>c. c \<noteq> CHR '':'') MAC_ADDRESS
      in JObj [(''type'', JStr ''RRI''),
               (''mac'', JStr mac_no_colons),
               (''data'', ppi_list),
               (''analysis'', JObj [(''type'', JStr ''readiness'')])])"

text \<open>A list of intervals as the Python list of numbers it is.\<close>

definition json_of_intervals :: "int list \<Rightarrow> json" where
  "json_of_intervals intervals = JArr (map (\<lambda>i. JNum (real_of_int i)) intervals)"


section \<open>core/wifi_mqtt.py: module state, callback, publish and wait\<close>

text \<open>
  The module's globals: \<open>client\<close> (\<open>None\<close> until \<open>connect_mqtt\<close> has run; only whether
  it is set matters) and the shared result slot \<open>kubios_result\<close>.
\<close>

record net_state =
  client :: bool
  kubios_result :: "py_dict option"

text \<open>
  \<^verbatim>\<open>
  def on_message(topic, msg):
      global kubios_result
      try:
          parsed = ujson.loads(msg.decode())
          if "data" not in parsed:
              return
          raw_data = parsed["data"]
          if not isinstance(raw_data, dict):
              return
          analysis = raw_data.get("analysis", {})
          normalized = {
              "mean_hr": analysis.get("mean_hr_bpm"),
              "mean_ppi": analysis.get("mean_rr_ms"),
              "rmssd": analysis.get("rmssd_ms"),
              "sdnn": analysis.get("sdnn_ms"),
              "sns": analysis.get("sns_index", 0),
              "pns": analysis.get("pns_index", 0)
          }
          for key in ["mean_hr", "mean_ppi", "rmssd", "sdnn"]:
              if normalized[key] is None:
                  return
          kubios_result = normalized
      except Exception as e:
          kubios_result = None
  \<close>
  The message of the model is the outcome of \<open>ujson.loads(msg.decode())\<close>: \<open>None\<close> when
  decoding or parsing raises, the parsed value otherwise. \<open>on_message_try\<close> is the body
  of the \<open>try\<close>: it returns the slot as the body leaves it, or the exception it raises.
\<close>

definition normalized_dict :: "py_dict \<Rightarrow> py_dict" where
  "normalized_dict analysis =
     [(''mean_hr'', dict_get analysis ''mean_hr_bpm'' JNull),
      (''mean_ppi'', dict_get analysis ''mean_rr_ms'' JNull),
      (''rmssd'', dict_get analysis ''rmssd_ms'' JNull),
      (''sdnn'', dict_get analysis ''sdnn_ms'' JNull),
      (''sns'', dict_get analysis ''sns_index'' (JNum 0)),
      (''pns'', dict_get analysis ''pns_index'' (JNum 0))]"

definition on_message_try :: "json option \<Rightarrow> py_dict option \<Rightarrow> py_error + py_dict option" where
  "on_message_try msg slot =
     (case msg of
        None \<Rightarrow> Inl ValueError
      | Some parsed \<Rightarrow>
          (case py_in ''data'' parsed of
             Inl e \<Rightarrow> Inl e
           | Inr present \<Rightarrow>
               if \<not> present then Inr slot
               else
                 (case py_getitem parsed ''data'' of
                    Inl e \<Rightarrow> Inl e
                  | Inr raw_data \<Rightarrow>
                      (case raw_data of
                         JObj d \<Rightarrow>
                           (case dict_get d ''analysis'' (JObj []) of
                              JObj analysis \<Rightarrow>
                                (let normalized = normalized_dict analysis
                                 in if list_ex (\<lambda>key. map_of normalized key = Some JNull)
                                         [''mean_hr'', ''mean_ppi'', ''rmssd'', ''sdnn'']
                                    then Inr slot
                                    else Inr (Some normalized))
                            | _ \<Rightarrow> Inl AttributeError)
                       | _ \<Rightarrow> Inr slot))))"

text \<open>
  The callback itself: what it raises to its caller (\<open>Inl\<close>), or the slot it leaves.
  The handler \<open>except Exception\<close> catches every exception of the body.
\<close>

definition on_message :: "json option \<Rightarrow> py_dict option \<Rightarrow> py_error + py_dict option" where
  "on_message msg slot =
     (case on_message_try msg slot of
        Inl e \<Rightarrow> Inr None
      | Inr slot' \<Rightarrow> Inr slot')"

text \<open>
  One side effect of the session on the outside world, in the order the calls are made.
  \<open>Publish topic v\<close> is the call \<open>client.publish(topic, ujson.dumps(v))\<close>.
\<close>

datatype event =
    WaitForEncoderPress
  | CollectPpiData
  | ShowErrorScreen
  | ShowSendingScreen
  | Sleep
  | ConnectWifi
  | ConnectMqtt
  | Publish string json
  | PrintNotConnected
  | CheckMsg
  | HandleKubiosResponse py_dict
  | ShowMenu

text \<open>
  \<^verbatim>\<open>
  def publish_json(topic, rr_intervals):
      global client
      if client:
          payload_dict = format_kubios_payload(rr_intervals)
          payload = ujson.dumps(payload_dict)
          client.publish(topic, payload)
      else:
          print("MQTT not connected!")
  \<close>
  \<open>publish_raises\<close> says whether \<open>client.publish\<close> raises (a broker or socket error).
\<close>

definition publish_json ::
  "string \<Rightarrow> bool \<Rightarrow> string \<Rightarrow> json \<Rightarrow> net_state \<Rightarrow> (py_error + unit) \<times> event list" where
  "publish_json MAC_ADDRESS publish_raises topic rr_intervals st =
     (if client st
      then (let payload_dict = format_kubios_payload MAC_ADDRESS rr_intervals
            in (if publish_raises then Inl OSError else Inr (), [Publish topic payload_dict]))
      else (Inr (), [PrintNotConnected]))"

text \<open>
  One call of \<open>client.check_msg()\<close>: nothing is pending, one message is pending and the
  callback runs on it, or the socket fails.
\<close>

datatype poll = NoMessage | Message "json option" | SocketError

text \<open>
  \<^verbatim>\<open>
  def wait_for_kubios_result(timeout=10):
      global kubios_result
      start = time.time()
      while time.time() - start < timeout:
          client.check_msg()
          if kubios_result is not None:
              return kubios_result
          time.sleep(0.1)
      return None
  \<close>
  The list of polls is what \<open>check_msg\<close> meets in the iterations that fit in the timeout.
  While \<open>client\<close> is still \<open>None\<close>, the call \<open>client.check_msg()\<close> raises
  \<open>AttributeError\<close>.
\<close>

fun wait_for_kubios_result ::
  "poll list \<Rightarrow> net_state \<Rightarrow> (py_error + py_dict option) \<times> event list \<times> net_state" where
  "wait_for_kubios_result [] st = (Inr None, [], st)"
| "wait_for_kubios_result (p # ps) st =
     (if \<not> client st then (Inl AttributeError, [], st)
      else
        (case (case p of
                 NoMessage \<Rightarrow> Inr st
               | Message msg \<Rightarrow>
                   (case on_message msg (kubios_result st) of
                      Inl e \<Rightarrow> Inl e
                    | Inr slot' \<Rightarrow> Inr (st\<lparr>kubios_result := slot'\<rparr>))
               | SocketError \<Rightarrow> Inl OSError) of
           Inl e \<Rightarrow> (Inl e, [CheckMsg], st)
         | Inr st' \<Rightarrow>
             (case kubios_result st' of
                Some r \<Rightarrow> (Inr (Some r), [CheckMsg], st')
              | None \<Rightarrow>
                  (case wait_for_kubios_result ps st' of
                     (res, evs, st'') \<Rightarrow> (res, CheckMsg # evs, st'')))))"


section \<open>cloud/kubios.py: the cloud analysis session\<close>

text \<open>
  What the collaborators do during one pass of \<open>kubios_analysis\<close>: the intervals the
  collection returns, whether Wi-Fi connects, whether \<open>client.publish\<close> raises, what
  \<open>check_msg\<close> meets while waiting, and what the user answers on the error screen.
  The display and sensor collaborators are taken not to raise.
\<close>

datatype choice = Retry | Exit

record pass =
  collected :: "int list"
  wifi_connects :: bool
  publish_raises :: bool
  polls :: "poll list"
  user_choice :: choice

text \<open>
  \<^verbatim>\<open>
  def setup_wifi_and_mqtt():
      if not wifi.connect_wifi(WIFI_SSID, WIFI_PASSWORD):
          raise Exception("WiFi not connected")
      wifi.connect_mqtt()
  \<close>
  \<open>connect_mqtt\<close> assigns the global \<open>client\<close> and catches its own connection errors.
\<close>

definition setup_wifi_and_mqtt :: "pass \<Rightarrow> net_state \<Rightarrow> (py_error + unit) \<times> event list \<times> net_state" where
  "setup_wifi_and_mqtt p st =
     (if \<not> wifi_connects p then (Inl WiFiNotConnected, [ConnectWifi], st)
      else (Inr (), [ConnectWifi, ConnectMqtt], st\<lparr>client := True\<rparr>))"

text \<open>
  The statements of the \<open>try\<close> block after the validation:
  \<^verbatim>\<open>
  payload = format_kubios_payload(intervals)
  show_sending_screen()
  time.sleep(1)
  setup_wifi_and_mqtt()
  publish_json("kubios/request", intervals)
  result = wait_for_kubios_result()
  \<close>
  The local \<open>payload\<close> is not used afterwards.
\<close>

definition send_and_wait ::
  "string \<Rightarrow> pass \<Rightarrow> net_state \<Rightarrow> (py_error + py_dict option) \<times> event list \<times> net_state" where
  "send_and_wait MAC_ADDRESS p st =
     (let intervals = json_of_intervals (collected p);
          payload = format_kubios_payload MAC_ADDRESS intervals
      in case setup_wifi_and_mqtt p st of
           (Inl e, evs1, st1) \<Rightarrow> (Inl e, [ShowSendingScreen, Sleep] @ evs1, st1)
         | (Inr u, evs1, st1) \<Rightarrow>
             (case publish_json MAC_ADDRESS (publish_raises p) ''kubios/request'' intervals st1 of
                (Inl e, evs2) \<Rightarrow> (Inl e, [ShowSendingScreen, Sleep] @ evs1 @ evs2, st1)
              | (Inr u', evs2) \<Rightarrow>
                  (case wait_for_kubios_result (polls p) st1 of
                     (res, evs3, st3) \<Rightarrow>
                       (res, [ShowSendingScreen, Sleep] @ evs1 @ evs2 @ evs3, st3))))"

text \<open>\<open>if result:\<close> holds for a dict that is not \<open>None\<close> and not empty.\<close>

fun truthy_result :: "py_error + py_dict option \<Rightarrow> py_dict option" where
  "truthy_result (Inr (Some r)) = (if r = [] then None else Some r)"
| "truthy_result _ = None"

text \<open>
  \<^verbatim>\<open>
  def kubios_analysis():
      try:
          wait_for_encoder_press()
          intervals = collect_ppi_data(duration=30)
          if len(intervals) < 5:
              show_error_screen()
              return
          ...
          if result:
              handle_kubios_response(result)
          else:
              user_choice = show_error_screen()
              if user_choice == "retry":
                  kubios_analysis()
              elif user_choice == "exit":
                  show_menu(get_menu_items(), get_current_selection())
      except Exception:
          user_choice = show_error_screen()
          if user_choice == "retry":
              kubios_analysis()
          elif user_choice == "exit":
              show_menu(get_menu_items(), get_current_selection())
  \<close>
  The session calls itself on every retry, so it takes the list of passes the
  collaborators go through; \<open>None\<close> is a session still running when the list ends.
\<close>

fun kubios_analysis :: "string \<Rightarrow> pass list \<Rightarrow> net_state \<Rightarrow> (event list \<times> net_state) option" where
  "kubios_analysis MAC_ADDRESS [] st = None"
| "kubios_analysis MAC_ADDRESS (p # ps) st =
     (if length (collected p) < 5
      then Some ([WaitForEncoderPress, CollectPpiData, ShowErrorScreen], st)
      else
        (case send_and_wait MAC_ADDRESS p st of
           (res, evs, st') \<Rightarrow>
             (case truthy_result res of
                Some result \<Rightarrow>
                  Some ([WaitForEncoderPress, CollectPpiData] @ evs
                        @ [HandleKubiosResponse result], st')
              | None \<Rightarrow>
                  (case user_choice p of
                     Retry \<Rightarrow>
                       (case kubios_analysis MAC_ADDRESS ps st' of
                          None \<Rightarrow> None
                        | Some (evs', st'') \<Rightarrow>
                            Some ([WaitForEncoderPress, CollectPpiData] @ evs
                                  @ [ShowErrorScreen] @ evs', st''))
                   | Exit \<Rightarrow>
                       Some ([WaitForEncoderPress, CollectPpiData] @ evs
                             @ [ShowErrorScreen, ShowMenu], st')))))"

text \<open>The calls that reach the network.\<close>

fun network_event :: "event \<Rightarrow> bool" where
  "network_event ConnectWifi = True"
| "network_event ConnectMqtt = True"
| "network_event (Publish topic v) = True"
| "network_event CheckMsg = True"
| "network_event _ = False"


section \<open>Properties of the numeric primitives\<close>

lemma py_round_near: "\<bar>real_of_int (py_round x) - x\<bar> \<le> 1 / 2"
  unfolding py_round_def Let_def by (auto; linarith)

lemma py_round_nonneg: "0 \<le> x \<Longrightarrow> 0 \<le> py_round x"
  unfolding py_round_def Let_def by (auto; linarith)

lemma py_round_of_int: "py_round (of_int n) = n"
  by (simp add: py_round_def)

lemma py_round_ge_1: "1 \<le> x \<Longrightarrow> 1 \<le> py_round x"
  using py_round_near [of x] by linarith

lemma floor_log2_bounds:
  assumes "0 < x"
  shows "2 powr of_int \<lfloor>log 2 x\<rfloor> \<le> x" "x < 2 powr (of_int \<lfloor>log 2 x\<rfloor> + 1)"
proof -
  have x: "2 powr (log 2 x) = x" using assms by simp
  have "of_int \<lfloor>log 2 x\<rfloor> \<le> log 2 x" by simp
  then have "2 powr of_int \<lfloor>log 2 x\<rfloor> \<le> 2 powr (log 2 x)"
    by (intro powr_mono) simp_all
  then show "2 powr of_int \<lfloor>log 2 x\<rfloor> \<le> x" using x by simp
  have "log 2 x < of_int \<lfloor>log 2 x\<rfloor> + 1" by linarith
  then have "2 powr (log 2 x) < 2 powr (of_int \<lfloor>log 2 x\<rfloor> + 1)"
    by (intro powr_less_mono) simp_all
  then show "x < 2 powr (of_int \<lfloor>log 2 x\<rfloor> + 1)" using x by simp
qed

lemma round_to_precision_pos:
  assumes "0 < x" "0 < p"
  shows "0 < round_to_precision p x"
proof -
  define e where "e = \<lfloor>log 2 \<bar>x\<bar>\<rfloor>"
  define ulp :: real where "ulp = 2 powr of_int (e + 1 - int p)"
  have ulp: "0 < ulp" by (simp add: ulp_def)
  have "2 powr of_int e \<le> x"
    using floor_log2_bounds(1) [OF assms(1)] assms(1) by (simp add: e_def)
  moreover have "2 powr of_int e = 2 powr (of_int (int p) - 1) * ulp"
    unfolding ulp_def by (simp add: powr_add [symmetric])
  ultimately have "2 powr (of_int (int p) - 1) \<le> x / ulp"
    using ulp by (simp add: pos_le_divide_eq)
  moreover have "(1 :: real) \<le> 2 powr (of_int (int p) - 1)"
    using assms(2) by (simp add: ge_one_powr_ge_zero)
  ultimately have "1 \<le> x / ulp" by linarith
  then have "1 \<le> py_round (x / ulp)" by (rule py_round_ge_1)
  then have "0 < real_of_int (py_round (x / ulp)) * ulp"
    using ulp by (intro mult_pos_pos) simp_all
  then show ?thesis
    using assms(1) by (simp add: round_to_precision_def Let_def e_def ulp_def)
qed

lemma fl32_pos: "0 < x \<Longrightarrow> 0 < fl32 x"
  by (simp add: fl32_def round_to_precision_pos)

lemma floor_log2_eq:
  assumes "2 ^ k \<le> x" "x < 2 ^ Suc k"
  shows "\<lfloor>log 2 x\<rfloor> = int k"
proof -
  have "(0 :: real) < 2 ^ k" by simp
  then have pos: "0 < x" using assms(1) by linarith
  have "real k \<le> log 2 x"
    using assms(1) pos by (simp add: le_log_iff powr_realpow)
  moreover have "log 2 x < real k + 1"
    using assms(2) pos by (simp add: log_less_iff powr_realpow powr_add)
  ultimately show ?thesis by (simp add: floor_unique)
qed

lemma fl32_eval:
  assumes "2 ^ k \<le> \<bar>x\<bar>" "\<bar>x\<bar> < 2 ^ Suc k" "k \<le> 23"
  shows "fl32 x = real_of_int (py_round (x * 2 ^ (23 - k))) / 2 ^ (23 - k)"
proof -
  have "(0 :: real) < 2 ^ k" by simp
  then have nz: "x \<noteq> 0" using assms(1) by linarith
  have e: "\<lfloor>log 2 \<bar>x\<bar>\<rfloor> = int k" by (rule floor_log2_eq [OF assms(1,2)])
  have "int k + 1 - int 24 = - int (23 - k)" using assms(3) by linarith
  then have "real_of_int (int k + 1 - int 24) = - real (23 - k)"
    by (simp only: of_int_minus of_int_of_nat_eq)
  then have "2 powr real_of_int (int k + 1 - int 24) = 2 powr (- real (23 - k))"
    by (simp only:)
  also have "\<dots> = inverse (2 powr real (23 - k))" by (rule powr_minus)
  also have "2 powr real (23 - k) = (2 :: real) ^ (23 - k)" by (simp add: powr_realpow)
  finally have ulp: "2 powr real_of_int (int k + 1 - int 24) = inverse (2 ^ (23 - k))" .
  have "fl32 x = real_of_int (py_round (x / inverse (2 ^ (23 - k)))) * inverse (2 ^ (23 - k))"
    unfolding fl32_def round_to_precision_def Let_def e ulp using nz by simp
  then show ?thesis by (simp add: divide_inverse)
qed

lemma fl32_zero: "fl32 0 = 0"
  by (simp add: fl32_def round_to_precision_def)

lemma binade_exists:
  fixes a :: real
  assumes "1 \<le> a"
  shows "\<exists>k. 2 ^ k \<le> a \<and> a < 2 ^ Suc k"
proof -
  have pos: "0 < a" using assms by simp
  define e where "e = \<lfloor>log 2 a\<rfloor>"
  have "0 \<le> log 2 a" using assms by simp
  then have e0: "0 \<le> e" by (simp add: e_def)
  have p: "2 powr real_of_int e = (2 :: real) ^ nat e"
    using e0 by (simp add: powr_realpow [symmetric])
  have q: "2 powr (real_of_int e + 1) = (2 :: real) ^ Suc (nat e)"
    using e0 by (simp add: powr_realpow [symmetric] powr_add)
  show ?thesis
    using floor_log2_bounds [OF pos] unfolding e_def [symmetric] p q by blast
qed

lemma fl32_of_int:
  assumes "\<bar>n\<bar> < 2 ^ 24"
  shows "fl32 (real_of_int n) = real_of_int n"
proof (cases "n = 0")
  case True
  then show ?thesis by (simp add: fl32_zero)
next
  case False
  then have "1 \<le> \<bar>real_of_int n\<bar>" by (simp flip: of_int_abs)
  then obtain k where k: "2 ^ k \<le> \<bar>real_of_int n\<bar>" "\<bar>real_of_int n\<bar> < 2 ^ Suc k"
    using binade_exists by blast
  have "\<bar>real_of_int n\<bar> < 2 ^ 24"
    using assms by (metis of_int_abs of_int_less_iff of_int_numeral of_int_power)
  then have lt: "(2 :: real) ^ k < 2 ^ 24" using k(1) by linarith
  have k23: "k \<le> 23"
  proof (rule ccontr)
    assume "\<not> k \<le> 23"
    then have "24 \<le> k" by simp
    then have "(2 :: real) ^ 24 \<le> 2 ^ k" by (intro power_increasing) simp_all
    then show False using lt by linarith
  qed
  have "real_of_int n * 2 ^ (23 - k) = real_of_int (n * 2 ^ (23 - k))" by simp
  then have "py_round (real_of_int n * 2 ^ (23 - k)) = n * 2 ^ (23 - k)"
    by (simp only: py_round_of_int)
  then show ?thesis
    by (simp add: fl32_eval [OF k k23])
qed

lemma sum_list_map_nth:
  "sum_list (map f xs) = (\<Sum>i<length xs. f (xs ! i))"
proof -
  have "sum_list (map f xs) = (\<Sum>i = 0..<length (map f xs). map f xs ! i)"
    by (rule sum_list_sum_nth)
  also have "\<dots> = (\<Sum>i<length xs. f (xs ! i))"
    by (simp add: atLeast0LessThan)
  finally show ?thesis .
qed

lemma sum_list_range_from_1:
  "sum_list (map f [1..<n]) = (\<Sum>i = 1..n - 1. f i)"
proof -
  have "sum_list (map f [1..<n]) = sum f (set [1..<n])"
    by (rule interv_sum_list_conv_sum_set_nat)
  also have "set [1..<n] = {1..n - 1}" by auto
  finally show ?thesis .
qed

lemma sum_list_pos_int:
  fixes xs :: "int list"
  assumes "xs \<noteq> []" "\<forall>d\<in>set xs. 0 < d"
  shows "0 < sum_list xs"
proof -
  have "0 \<le> sum_list (tl xs)"
    using assms by (intro sum_list_nonneg) (auto simp: less_imp_le dest: list.set_sel(2))
  moreover have "0 < hd xs" using assms by simp
  moreover have "sum_list xs = hd xs + sum_list (tl xs)"
    using assms(1) by (cases xs) simp_all
  ultimately show ?thesis by simp
qed

lemma sqrt_40000: "sqrt 40000 = 200"
  by (rule real_sqrt_unique) simp_all

lemma sqrt_20000: "sqrt 20000 = 100 * sqrt 2"
proof -
  have "sqrt 20000 = sqrt (100 ^ 2 * 2)" by simp
  also have "\<dots> = 100 * sqrt 2"
    by (simp only: real_sqrt_mult real_sqrt_abs abs_numeral)
  finally show ?thesis .
qed


section \<open>HRV statistics\<close>

lemma hrv_700_900: "calculate_hrv [700, 900] = Inr (75, 800, 200, 100 * sqrt 2)"
  by (simp add: calculate_hrv_def Let_def sqrt_40000 sqrt_20000)

text \<open>
  Claim C1. With \<open>N\<close> the number of intervals: for \<open>N < 2\<close>, \<open>calculate_hrv\<close> returns the
  all-zero tuple; for a sequence of \<open>N \<ge> 2\<close> accepted intervals (each between 250 and
  2000 ms) it returns \<open>mean_ppi = (\<Sum> intervals) / N\<close>, \<open>mean_hr = 60000 / mean_ppi\<close>,
  \<open>rmssd = sqrt ((\<Sum>i=1..N-1. (x\<^sub>i - x\<^sub>i\<^sub>-\<^sub>1)\<^sup>2) / (N - 1))\<close> and
  \<open>sdnn = sqrt ((\<Sum>i. (x\<^sub>i - mean_ppi)\<^sup>2) / (N - 1))\<close>, both with the denominator
  \<open>N - 1\<close>. On \<open>[700, 900]\<close> the result is \<open>mean_ppi = 800\<close>, \<open>rmssd = 200\<close>,
  \<open>sdnn = 100 * sqrt 2\<close> (and \<open>mean_hr = 75\<close>).
\<close>

theorem calculate_hrv_formulas:
  fixes xs :: "int list"
  defines "N \<equiv> length xs"
  defines "mean_ppi \<equiv> real_of_int (\<Sum>i<N. xs ! i) / real N"
  shows "(N < 2 \<longrightarrow> calculate_hrv xs = Inr (0, 0, 0, 0)) \<and>
         (2 \<le> N \<and> (\<forall>x\<in>set xs. 250 < x \<and> x < 2000) \<longrightarrow>
            calculate_hrv xs =
              Inr (60000 / mean_ppi,
                   mean_ppi,
                   sqrt (real_of_int (\<Sum>i = 1..N - 1. (xs ! i - xs ! (i - 1)) ^ 2) / real (N - 1)),
                   sqrt ((\<Sum>i<N. (real_of_int (xs ! i) - mean_ppi) ^ 2) / real (N - 1)))) \<and>
         calculate_hrv [700, 900] = Inr (75, 800, 200, 100 * sqrt 2)"
proof -
  have s: "sum_list xs = (\<Sum>i<N. xs ! i)"
    using sum_list_map_nth [of "\<lambda>x. x" xs] by (simp add: N_def)
  have short: "N < 2 \<Longrightarrow> calculate_hrv xs = Inr (0, 0, 0, 0)"
    by (simp add: calculate_hrv_def N_def)
  have long: "calculate_hrv xs =
              Inr (60000 / mean_ppi,
                   mean_ppi,
                   sqrt (real_of_int (\<Sum>i = 1..N - 1. (xs ! i - xs ! (i - 1)) ^ 2) / real (N - 1)),
                   sqrt ((\<Sum>i<N. (real_of_int (xs ! i) - mean_ppi) ^ 2) / real (N - 1)))"
    if "2 \<le> N" "\<forall>x\<in>set xs. 250 < x \<and> x < 2000"
  proof -
    have ne: "xs \<noteq> []" using that(1) by (auto simp: N_def)
    have "\<forall>x\<in>set xs. 0 < x" using that(2) by auto
    then have pos: "0 < sum_list xs" by (rule sum_list_pos_int [OF ne])
    have m: "real_of_int (sum_list xs) / real (length xs) = mean_ppi"
      by (simp add: mean_ppi_def s N_def)
    have "real_of_int (sum_list xs) \<noteq> 0" "real (length xs) \<noteq> 0"
      using pos ne by auto
    then have nz: "mean_ppi \<noteq> 0"
      unfolding m [symmetric] by simp
    have d: "real (length xs) - 1 = real (N - 1)"
      using that(1) by (simp add: N_def of_nat_diff)
    have r: "sum_list (map (\<lambda>i. (xs ! i - xs ! (i - 1)) ^ 2) [1..<length xs])
             = (\<Sum>i = 1..N - 1. (xs ! i - xs ! (i - 1)) ^ 2)"
      unfolding N_def by (rule sum_list_range_from_1)
    have sd: "sum_list (map (\<lambda>x. (real_of_int x - mean_ppi) ^ 2) xs)
             = (\<Sum>i<N. (real_of_int (xs ! i) - mean_ppi) ^ 2)"
      unfolding N_def by (rule sum_list_map_nth)
    have "\<not> length xs < 2" using that(1) by (simp add: N_def)
    then show ?thesis
      unfolding calculate_hrv_def Let_def m r sd d using nz by simp
  qed
  show ?thesis
    using short long hrv_700_900 by blast
qed

theorem calculate_hrv_formulas_witness:
  "calculate_hrv [] = Inr (0, 0, 0, 0) \<and>
   calculate_hrv [640] = Inr (0, 0, 0, 0) \<and>
   calculate_hrv [800, 810] = Inr (60000 / 805, 805, 10, sqrt 50) \<and>
   calculate_hrv [800, 800, 800, 800] = Inr (75, 800, 0, 0)"
proof -
  have a: "calculate_hrv [] = Inr (0, 0, 0, 0)"
    using calculate_hrv_formulas [of "[]"] by simp
  have b: "calculate_hrv [640] = Inr (0, 0, 0, 0)"
    using calculate_hrv_formulas [of "[640]"] by simp
  have c: "calculate_hrv [800, 810] = Inr (60000 / 805, 805, 10, sqrt 50)"
    using calculate_hrv_formulas [of "[800, 810]"] by (simp add: lessThan_Suc)
  have d: "calculate_hrv [800, 800, 800, 800] = Inr (75, 800, 0, 0)"
    using calculate_hrv_formulas [of "[800, 800, 800, 800]"]
    by (simp add: lessThan_Suc atLeastAtMost_upt upt_rec)
  show ?thesis using a b c d by simp
qed


section \<open>BPM from intervals\<close>

lemma fl32_exact:
  "fl32 1 = 1" "fl32 3 = 3" "fl32 60 = 60" "fl32 120 = 120" "fl32 500 = 500"
  "fl32 1000 = 1000" "fl32 1500 = 1500" "fl32 1600 = 1600" "fl32 60000 = 60000"
  using fl32_of_int [of 1] fl32_of_int [of 3] fl32_of_int [of 60] fl32_of_int [of 120]
    fl32_of_int [of 500] fl32_of_int [of 1000] fl32_of_int [of 1500] fl32_of_int [of 1600]
    fl32_of_int [of 60000]
  by simp_all

text \<open>
  In single precision the mean of 533, 533, 534 rounds down to 533.33331..., and the
  quotient 60000 / mean rounds to 112.50000763, just above the tie of the exact
  quotient 112.5.
\<close>

lemma fl32_mean_533: "fl32 (1600 / 3) = 8738133 / 16384"
proof -
  have "fl32 (1600 / 3) = real_of_int (py_round (1600 / 3 * 2 ^ (23 - 9))) / 2 ^ (23 - 9)"
    by (rule fl32_eval) simp_all
  also have "py_round (1600 / 3 * 2 ^ (23 - 9)) = 8738133"
    by (simp add: py_round_def)
  finally show ?thesis by simp
qed

lemma fl32_quotient_533: "fl32 (60000 / (8738133 / 16384)) = 14745601 / 131072"
proof -
  have "fl32 (60000 / (8738133 / 16384))
        = real_of_int (py_round (60000 / (8738133 / 16384) * 2 ^ (23 - 6))) / 2 ^ (23 - 6)"
    by (rule fl32_eval) simp_all
  also have "py_round (60000 / (8738133 / 16384) * 2 ^ (23 - 6)) = 14745601"
    by (simp add: py_round_def)
  finally show ?thesis by simp
qed

text \<open>
  On accepted intervals no division of \<open>calculate_bpm\<close> meets a zero divisor: the sum,
  the count, their float quotient and the final quotient are all positive.
\<close>

lemma calculate_bpm_value:
  assumes "xs \<noteq> []" "\<forall>d\<in>set xs. plausible d"
  defines "mean \<equiv> fl32 (fl32 (real_of_int (sum_list xs)) / fl32 (real (length xs)))"
  shows "calculate_bpm xs = Inr (py_round (fl32 (60000 / mean)))"
    and "0 < fl32 (60000 / mean)"
proof -
  have "\<forall>d\<in>set xs. 0 < d" using assms(2) by (auto simp: plausible_def)
  then have "0 < sum_list xs" by (rule sum_list_pos_int [OF assms(1)])
  then have s: "0 < fl32 (real_of_int (sum_list xs))" by (intro fl32_pos) simp
  have n: "0 < fl32 (real (length xs))" using assms(1) by (intro fl32_pos) simp
  have "0 < fl32 (real_of_int (sum_list xs)) / fl32 (real (length xs))"
    using s n by (rule divide_pos_pos)
  then have m: "0 < mean" unfolding mean_def by (rule fl32_pos)
  have "0 < 60000 / mean" using m by simp
  then show q: "0 < fl32 (60000 / mean)" by (rule fl32_pos)
  have "calculate_bpm xs = Inr (py_round (fl32 (60000 / mean)))"
    using assms(1) n m
    by (simp add: calculate_bpm_def float_truediv_def float_of_int_def fl32_exact
        mean_def [symmetric])
  then show "calculate_bpm xs = Inr (py_round (fl32 (60000 / mean)))" .
qed

lemma calculate_bpm_plausible:
  assumes "\<forall>d\<in>set xs. plausible d"
  shows "\<exists>bpm. calculate_bpm xs = Inr bpm"
proof (cases "xs = []")
  case True
  then show ?thesis by (simp add: calculate_bpm_def)
next
  case False
  then show ?thesis using calculate_bpm_value(1) [OF False assms] by blast
qed

lemma calculate_bpm_case:
  assumes "\<forall>d\<in>set xs. plausible d"
  shows "(case calculate_bpm xs of Inl e \<Rightarrow> Inl e | Inr bpm \<Rightarrow> k) = k"
  using calculate_bpm_plausible [OF assms] by auto

lemma calculate_bpm_examples:
  "calculate_bpm [1000] = Inr 60" "calculate_bpm [500, 500, 500] = Inr 120"
  by (simp_all add: calculate_bpm_def float_truediv_def float_of_int_def fl32_exact
      py_round_def)

text \<open>
  Claim C8. \<open>calculate_bpm\<close> returns 0 on the empty sequence. On a non-empty sequence
  of accepted intervals (each between 250 and 2000 ms) it raises nothing and returns
  \<open>round (60000 / mean)\<close>, where \<open>mean\<close> is the float quotient of the sum and the count
  and the divisions round to single precision as on the device; the result is a
  non-negative integer, within one half of the float quotient it rounds.
  \<open>calculate_bpm [1000] = 60\<close> and \<open>calculate_bpm [500, 500, 500] = 120\<close>.
\<close>

theorem calculate_bpm_rounds:
  fixes xs :: "int list"
  defines "mean \<equiv>
    fl32 (fl32 (real_of_int (\<Sum>i<length xs. xs ! i)) / fl32 (real (length xs)))"
  shows "calculate_bpm [] = Inr 0 \<and>
         (xs \<noteq> [] \<and> (\<forall>x\<in>set xs. 250 < x \<and> x < 2000) \<longrightarrow>
            calculate_bpm xs = Inr (py_round (fl32 (60000 / mean))) \<and>
            0 \<le> py_round (fl32 (60000 / mean)) \<and>
            \<bar>real_of_int (py_round (fl32 (60000 / mean))) - fl32 (60000 / mean)\<bar> \<le> 1 / 2) \<and>
         calculate_bpm [1000] = Inr 60 \<and>
         calculate_bpm [500, 500, 500] = Inr 120"
proof -
  have s: "sum_list xs = (\<Sum>i<length xs. xs ! i)"
    using sum_list_map_nth [of "\<lambda>x. x" xs] by simp
  have a: "calculate_bpm [] = Inr 0"
    by (simp add: calculate_bpm_def)
  have b: "calculate_bpm xs = Inr (py_round (fl32 (60000 / mean))) \<and>
           0 \<le> py_round (fl32 (60000 / mean))"
    if "xs \<noteq> []" "\<forall>x\<in>set xs. 250 < x \<and> x < 2000"
  proof -
    have p: "\<forall>d\<in>set xs. plausible d" using that(2) by (simp add: plausible_def)
    have "0 \<le> fl32 (60000 / mean)"
      using calculate_bpm_value(2) [OF that(1) p] by (simp add: mean_def s)
    then have "0 \<le> py_round (fl32 (60000 / mean))" by (rule py_round_nonneg)
    then show ?thesis
      using calculate_bpm_value(1) [OF that(1) p] by (simp add: mean_def s)
  qed
  show ?thesis
    using a b calculate_bpm_examples py_round_near by blast
qed

theorem calculate_bpm_rounds_witness:
  "calculate_bpm [533, 533, 534] = Inr 113 \<and>
   calculate_bpm [800, 800, 800, 800] = Inr 75 \<and>
   (0 :: int) \<le> 113"
proof -
  have m: "fl32 (fl32 1600 / fl32 3) = 8738133 / 16384"
    by (simp only: fl32_exact fl32_mean_533)
  have q: "fl32 (60000 / (8738133 / 16384)) = 14745601 / 131072"
    by (rule fl32_quotient_533)
  have r: "py_round (14745601 / 131072) = 113"
    by (simp add: py_round_def)
  have "calculate_bpm [533, 533, 534]
          = Inr (py_round (fl32 (60000 / fl32 (fl32 1600 / fl32 3)))) \<and>
        0 \<le> py_round (fl32 (60000 / fl32 (fl32 1600 / fl32 3)))"
    using calculate_bpm_rounds [of "[533, 533, 534]"] by (simp add: lessThan_Suc)
  then have a: "calculate_bpm [533, 533, 534] = Inr 113 \<and> (0 :: int) \<le> 113"
    unfolding m q r .
  have m2: "fl32 (fl32 3200 / fl32 4) = 800"
    using fl32_of_int [of 3200] fl32_of_int [of 4] fl32_of_int [of 800] by simp
  have q2: "fl32 (60000 / 800) = 75"
    using fl32_of_int [of 75] by simp
  have "calculate_bpm [800, 800, 800, 800]
          = Inr (py_round (fl32 (60000 / fl32 (fl32 3200 / fl32 4))))"
    using calculate_bpm_rounds [of "[800, 800, 800, 800]"] by (simp add: lessThan_Suc)
  then have b: "calculate_bpm [800, 800, 800, 800] = Inr 75"
    unfolding m2 q2 by (simp add: py_round_def)
  show ?thesis using a b by simp
qed


section \<open>Threshold calibration\<close>

lemma calibrate_loop_Min_Max:
  "calibrate_loop lo hi xs =
     (Min (insert lo (uint ` set xs)), Max (insert hi (uint ` set xs)))"
proof (induction xs arbitrary: lo hi)
  case Nil
  show ?case by simp
next
  case (Cons x xs)
  have a: "Min (insert (min lo (uint x)) (uint ` set xs)) = Min (insert lo (insert (uint x) (uint ` set xs)))"
    by (cases "set xs = {}") (simp_all add: min.assoc min.commute)
  have b: "Max (insert (max hi (uint x)) (uint ` set xs)) = Max (insert hi (insert (uint x) (uint ` set xs)))"
    by (cases "set xs = {}") (simp_all add: max.assoc max.commute)
  show ?case
    by (simp add: Cons.IH a b)
qed

lemma uint_u16_range: "0 \<le> uint (v :: u16) \<and> uint v \<le> 65535"
  using uint_lt2p [of v] by simp

lemma calibrate_loop_observed:
  assumes "samples \<noteq> []"
  shows "calibrate_loop 65535 0 samples = (Min (uint ` set samples), Max (uint ` set samples))"
proof -
  let ?S = "uint ` set samples"
  have ne: "?S \<noteq> {}" and fin: "finite ?S" using assms by auto
  have "Min ?S \<le> 65535"
    using Min_in [OF fin ne] uint_u16_range by auto
  then have lo: "Min (insert 65535 ?S) = Min ?S"
    using fin ne by (simp add: min_absorb2)
  have "0 \<le> Max ?S"
    using Max_in [OF fin ne] uint_u16_range by auto
  then have hi: "Max (insert 0 ?S) = Max ?S"
    using fin ne by (simp add: max_absorb2)
  show ?thesis
    by (simp add: calibrate_loop_Min_Max lo hi)
qed

lemma threshold_between:
  fixes lo hi :: int
  assumes "0 \<le> lo" "lo \<le> hi"
  shows "lo \<le> py_int (real_of_int lo + real_of_int (hi - lo) * 0.7)"
    and "py_int (real_of_int lo + real_of_int (hi - lo) * 0.7) \<le> hi"
proof -
  let ?t = "real_of_int lo + real_of_int (hi - lo) * 0.7"
  have d: "real_of_int (hi - lo) = real_of_int hi - real_of_int lo" by simp
  have l: "real_of_int lo \<le> real_of_int hi" using assms by simp
  have t1: "real_of_int lo \<le> ?t"
    unfolding d using l by (simp add: field_simps)
  have t2: "?t \<le> real_of_int hi"
    unfolding d using l by (simp add: field_simps)
  note t = t1 t2
  then have "0 \<le> ?t" using assms by linarith
  then have p: "py_int ?t = \<lfloor>?t\<rfloor>" by (simp add: py_int_def)
  have "\<lfloor>real_of_int lo\<rfloor> \<le> \<lfloor>?t\<rfloor>" by (rule floor_mono [OF t1])
  then show "lo \<le> py_int ?t" unfolding p by (simp only: floor_of_int)
  have "\<lfloor>?t\<rfloor> \<le> \<lfloor>real_of_int hi\<rfloor>" by (rule floor_mono [OF t2])
  then show "py_int ?t \<le> hi" unfolding p by (simp only: floor_of_int)
qed

text \<open>
  Claim C6. Over a calibration window in which at least one sample is read, with
  \<open>min_observed\<close> and \<open>max_observed\<close> the least and greatest value read,
  \<open>calibrate_threshold\<close> returns
  \<open>int (min_observed + 0.7 * (max_observed - min_observed))\<close>, the result lies between
  \<open>min_observed\<close> and \<open>max_observed\<close>, and a signal that is constantly 100 gives the
  threshold 100.
\<close>

theorem calibrate_threshold_range:
  fixes samples :: "u16 list"
  defines "min_observed \<equiv> Min (uint ` set samples)"
  defines "max_observed \<equiv> Max (uint ` set samples)"
  assumes "samples \<noteq> []"
  shows "calibrate_threshold samples =
           py_int (real_of_int min_observed + 0.7 * real_of_int (max_observed - min_observed)) \<and>
         min_observed \<le> calibrate_threshold samples \<and>
         calibrate_threshold samples \<le> max_observed \<and>
         (set samples = {100} \<longrightarrow> calibrate_threshold samples = 100)"
proof -
  let ?S = "uint ` set samples"
  have ne: "?S \<noteq> {}" and fin: "finite ?S" using assms by auto
  have eq: "calibrate_threshold samples =
           py_int (real_of_int min_observed + real_of_int (max_observed - min_observed) * 0.7)"
    by (simp add: calibrate_threshold_def calibrate_loop_observed [OF assms(3)]
        min_observed_def max_observed_def)
  have "min_observed \<in> ?S" unfolding min_observed_def by (rule Min_in [OF fin ne])
  then have nonneg: "0 \<le> min_observed" using uint_u16_range by auto
  have le: "min_observed \<le> max_observed"
    unfolding min_observed_def max_observed_def
    using fin ne by (meson Max_in Min_le)
  have const: "calibrate_threshold samples = 100" if "set samples = {100}"
  proof -
    have "min_observed = 100" "max_observed = 100"
      using that by (simp_all add: min_observed_def max_observed_def)
    then show ?thesis unfolding eq by (simp add: py_int_def)
  qed
  show ?thesis
    using eq threshold_between [OF nonneg le] const by (simp add: mult.commute)
qed

theorem calibrate_threshold_range_witness:
  "[10, 20 :: u16] \<noteq> [] \<and> calibrate_threshold [10, 20] = 17 \<and>
   (10 :: int) \<le> calibrate_threshold [10, 20] \<and> calibrate_threshold [10, 20] \<le> 20 \<and>
   calibrate_threshold [100, 100, 100] = 100"
proof -
  have a: "[10, 20 :: u16] \<noteq> []" by simp
  have m: "Min (uint ` set [10, 20 :: u16]) = 10" "Max (uint ` set [10, 20 :: u16]) = 20"
    by simp_all
  have b: "[100, 100, 100 :: u16] \<noteq> []" by simp
  have c: "set [100, 100, 100 :: u16] = {100}" by simp
  have r: "py_int (10 + 0.7 * 10) = 17" by (simp add: py_int_def)
  show ?thesis
    using calibrate_threshold_range [OF a] calibrate_threshold_range [OF b] c r
    unfolding m by simp
qed

section \<open>Beat detection\<close>

lemma ticks_diff_mod:
  "ticks_diff (a mod TICKS_PERIOD) (b mod TICKS_PERIOD) = ticks_diff a b"
proof -
  have "(a mod TICKS_PERIOD - b mod TICKS_PERIOD + TICKS_PERIOD div 2) mod TICKS_PERIOD
        = (a - b + TICKS_PERIOD div 2) mod TICKS_PERIOD"
    by (metis mod_add_left_eq mod_diff_eq)
  then show ?thesis by (simp only: ticks_diff_def)
qed

lemma ticks_diff_small:
  assumes "- (2 ^ 29) \<le> a - b" "a - b < 2 ^ 29"
  shows "ticks_diff a b = a - b"
proof -
  have "0 \<le> a - b + 2 ^ 29" "a - b + 2 ^ 29 < 2 ^ 30" using assms by simp_all
  then have "(a - b + 2 ^ 29) mod 2 ^ 30 = a - b + 2 ^ 29"
    by (rule mod_pos_pos_trivial)
  then show ?thesis by (simp add: ticks_diff_def TICKS_PERIOD_def)
qed

lemma ticks_diff_offset:
  assumes "- (2 ^ 29) \<le> a - b" "a - b < 2 ^ 29"
  shows "ticks_diff ((t + a) mod TICKS_PERIOD) ((t + b) mod TICKS_PERIOD) = a - b"
  using ticks_diff_small [of "t + a" "t + b"] assms by (simp add: ticks_diff_mod)

lemma upt_1_3: "[1..<3] = [1, 2]"
  by (simp add: upt_rec)

lemma measure_alternating:
  "measure_loop 50 0 [] [(90, t1), (20, t2), (90, t3), (20, t4), (90, t5)] = [t1, t3, t5]"
  by simp

lemma kubios_alternating:
  "kubios_loop 50 0 [] [] [(90, t1), (20, t2), (90, t3), (20, t4), (90, t5)] =
     (let d1 = ticks_diff t3 t1; d2 = ticks_diff t5 t3;
          i1 = (if 250 < d1 \<and> d1 < 2000 then [d1] else [])
      in if 250 < d2 \<and> d2 < 2000 then i1 @ [d2] else i1)"
  by (simp add: append_beat_def Let_def)

text \<open>
  Claim C3, as the code has it. The values 90, 20, 90, 20, 90 against the threshold 50
  cross the threshold upwards at the first, third and fifth sample (the detector
  starts from \<open>last_value = 0\<close>). With successive samples 600 ms apart, from any
  reading \<open>t\<close> of the wrapping tick counter, the beats are 1200 ms apart and both
  acquisition loops return exactly the intervals \<open>[1200, 1200]\<close>; with samples 100 ms
  apart the beats are 200 ms apart and both return no interval.
\<close>

theorem alternating_stream_intervals:
  fixes t :: int
  defines "tick \<equiv> \<lambda>k. (t + k) mod TICKS_PERIOD"
  defines "slow \<equiv> [(90, tick 0), (20, tick 600), (90, tick 1200), (20, tick 1800), (90, tick 2400)]"
  defines "fast \<equiv> [(90, tick 0), (20, tick 100), (90, tick 200), (20, tick 300), (90, tick 400)]"
  shows "measure_intervals_from 50 slow = [1200, 1200] \<and>
         show_countdown_animation_kubios_from 50 slow = [1200, 1200] \<and>
         measure_intervals_from 50 fast = [] \<and>
         show_countdown_animation_kubios_from 50 fast = []"
proof -
  have d: "ticks_diff (tick 1200) (tick 0) = 1200" "ticks_diff (tick 2400) (tick 1200) = 1200"
          "ticks_diff (tick 200) (tick 0) = 200" "ticks_diff (tick 400) (tick 200) = 200"
    unfolding tick_def
    using ticks_diff_offset [of 1200 0 t] ticks_diff_offset [of 2400 1200 t]
      ticks_diff_offset [of 200 0 t] ticks_diff_offset [of 400 200 t]
    by simp_all
  have a: "measure_intervals_from 50 slow = [1200, 1200]"
    unfolding measure_intervals_from_def slow_def measure_alternating
    by (simp add: upt_1_3 d)
  have b: "show_countdown_animation_kubios_from 50 slow = [1200, 1200]"
    unfolding show_countdown_animation_kubios_from_def slow_def kubios_alternating
    by (simp add: d)
  have c: "measure_intervals_from 50 fast = []"
    unfolding measure_intervals_from_def fast_def measure_alternating
    by (simp add: upt_1_3 d)
  have e: "show_countdown_animation_kubios_from 50 fast = []"
    unfolding show_countdown_animation_kubios_from_def fast_def kubios_alternating
    by (simp add: d)
  show ?thesis using a b c e by simp
qed

text \<open>
  Claim C3 as stated fails: with samples 600 ms apart, neither loop returns two
  intervals of 600 ms.
\<close>

theorem alternating_stream_counterexample:
  "measure_intervals_from 50 [(90, 0), (20, 600), (90, 1200), (20, 1800), (90, 2400)]
     \<noteq> [600, 600] \<and>
   show_countdown_animation_kubios_from 50 [(90, 0), (20, 600), (90, 1200), (20, 1800), (90, 2400)]
     \<noteq> [600, 600]"
  by (simp add: measure_intervals_from_def show_countdown_animation_kubios_from_def
      append_beat_def ticks_diff_def TICKS_PERIOD_def upt_1_3)

text \<open>
  The loops of \<open>measure_intervals\<close> and \<open>show_countdown_animation_kubios\<close> and
  \<open>process_sample\<close> register a beat at a sample exactly on a rising edge.
\<close>

lemma rising_edge_paths:
  "measure_loop threshold last_value window [(v, now)] =
     (if last_value < threshold \<and> threshold \<le> uint v
      then (if 20 < length (window @ [now]) then tl (window @ [now]) else window @ [now])
      else window)"
  "kubios_loop threshold last_value beat_times intervals [(v, now)] =
     (if last_value < threshold \<and> threshold \<le> uint v
      then snd (append_beat beat_times intervals now) else intervals)"
  "fst (snd (process_sample raw smoothed threshold last_value beat_times now)) \<longleftrightarrow>
     last_value < threshold \<and>
     threshold \<le> py_int (0.2 * real_of_int raw + 0.8 * real_of_int smoothed)"
  by (simp_all add: Let_def process_sample_def split: prod.splits)

text \<open>
  Claim C2 at threshold 50. \<open>read_live_signal\<close> reports a beat for every sample above
  the threshold, whatever the previous sample was, and none for a sample equal to the
  threshold: on the samples 90, 90 (600 ms apart) the live loop registers two beats and
  accepts the interval 600, where the rising-edge loops register one beat and accept
  nothing.
\<close>

theorem read_live_signal_level_triggered:
  "snd (read_live_signal threshold (Some v)) = (threshold < uint v) \<and>
   read_live_signal 50 (Some 20) = (20, False) \<and>
   read_live_signal 50 (Some 90) = (90, True) \<and>
   read_live_signal 50 (Some 50) = (50, False) \<and>
   live_loop 50 [] [] [(Some 90, 0), (Some 90, 600)] = Inr [600] \<and>
   show_countdown_animation_kubios_from 50 [(90, 0), (90, 600)] = [] \<and>
   measure_intervals_from 50 [(90, 0), (90, 600)] = []"
  by (simp add: append_beat_def ticks_diff_def TICKS_PERIOD_def calculate_bpm_case plausible_def
      show_countdown_animation_kubios_from_def measure_intervals_from_def)

section \<open>The accepted-interval range\<close>

lemma append_beat_plausible:
  assumes "append_beat beats ints now = (beats', ints')" "\<forall>d\<in>set ints. plausible d"
  shows "\<forall>d\<in>set ints'. plausible d"
  using assms by (auto simp: append_beat_def Let_def plausible_def split: if_splits)

lemma append_beat_dropped:
  assumes "beats \<noteq> []"
    and "\<not> (250 < ticks_diff now (last beats) \<and> ticks_diff now (last beats) < 2000)"
  shows "append_beat beats ints now = (beats @ [now], ints)"
proof -
  have a: "(beats @ [now]) ! (length (beats @ [now]) - 1) = now"
    by simp
  have "length (beats @ [now]) - 2 = length beats - 1" by simp
  then have b: "(beats @ [now]) ! (length (beats @ [now]) - 2) = last beats"
    using assms(1) by (simp add: nth_append last_conv_nth)
  show ?thesis
    unfolding append_beat_def Let_def a b using assms by auto
qed

lemma kubios_loop_plausible:
  "\<forall>d\<in>set ints. plausible d \<Longrightarrow>
   \<forall>d\<in>set (kubios_loop thr lv beats ints s). plausible d"
proof (induction s arbitrary: lv beats ints)
  case Nil
  then show ?case by simp
next
  case (Cons x s)
  obtain v now where x: "x = (v, now)" by (cases x)
  obtain beats' ints' where ab: "append_beat beats ints now = (beats', ints')"
    by (cases "append_beat beats ints now")
  have p: "\<forall>d\<in>set ints'. plausible d"
    using append_beat_plausible [OF ab Cons.prems] .
  show ?case
    using Cons.IH [OF p] Cons.IH [OF Cons.prems] by (simp add: x ab Let_def)
qed

lemma process_sample_plausible:
  assumes "process_sample raw sm thr lv beats now = (sm', beat, Some d, beats')"
  shows "plausible d"
  using assms by (auto simp: process_sample_def Let_def plausible_def split: if_splits)

lemma animation_loop_plausible:
  "\<forall>d\<in>set ints. plausible d \<Longrightarrow>
   \<forall>d\<in>set (animation_loop thr sm lv beats ints s). plausible d"
proof (induction s arbitrary: sm lv beats ints)
  case Nil
  then show ?case by simp
next
  case (Cons x s)
  obtain raw now where x: "x = (raw, now)" by (cases x)
  obtain sm' beat interval beats'
    where ps: "process_sample (uint raw) sm thr lv beats now = (sm', beat, interval, beats')"
    by (cases "process_sample (uint raw) sm thr lv beats now")
  have p: "\<forall>d\<in>set (case interval of None \<Rightarrow> ints
                       | Some d \<Rightarrow> if d \<noteq> 0 then ints @ [d] else ints). plausible d"
    using Cons.prems process_sample_plausible [of "uint raw" sm thr lv beats now sm' beat _ beats'] ps
    by (auto split: option.splits)
  show ?case
    using Cons.IH [OF p] by (simp add: x ps)
qed

lemma live_loop_plausible:
  "\<forall>d\<in>set ints. plausible d \<Longrightarrow>
   \<exists>res. live_loop thr beats ints s = Inr res \<and> (\<forall>d\<in>set res. plausible d)"
proof (induction s arbitrary: beats ints)
  case Nil
  then show ?case by simp
next
  case (Cons x s)
  obtain v now where x: "x = (v, now)" by (cases x)
  obtain beats' ints'
    where st: "(if snd (read_live_signal thr v) then append_beat beats ints now
                else (beats, ints)) = (beats', ints')"
    by (cases "if snd (read_live_signal thr v) then append_beat beats ints now else (beats, ints)")
  have p: "\<forall>d\<in>set ints'. plausible d"
    using st Cons.prems append_beat_plausible [of beats ints now beats' ints']
    by (auto split: if_splits)
  then have "\<forall>d\<in>set (drop (length ints' - 5) ints'). plausible d"
    by (meson in_set_dropD)
  then obtain bpm where b: "calculate_bpm (drop (length ints' - 5) ints') = Inr bpm"
    using calculate_bpm_plausible by blast
  show ?case
    using Cons.IH [OF p] by (simp add: x st b)
qed

text \<open>
  The intervals of the live loop are positive, so the calls of \<open>calculate_bpm\<close> in and
  after the loop of \<open>handle_measure_hr\<close> never raise.
\<close>

lemma handle_measure_hr_returns: "\<exists>bpm. handle_measure_hr calibration samples = Inr bpm"
proof -
  have "\<forall>d\<in>set ([] :: int list). plausible d" by simp
  then obtain intervals
    where "live_loop (calibrate_threshold calibration) [] [] samples = Inr intervals"
      and "\<forall>d\<in>set intervals. plausible d"
    using live_loop_plausible by blast
  then show ?thesis
    using calculate_bpm_plausible [of intervals]
    by (auto simp: handle_measure_hr_def live_intervals_def)
qed

text \<open>
  Claim C7. In every acquisition path (\<open>measure_intervals\<close>,
  \<open>show_countdown_animation_kubios\<close>, \<open>show_countdown_animation\<close> with
  \<open>process_sample\<close>, and the live loop of \<open>handle_measure_hr\<close> and \<open>handle_basic_hrv\<close>)
  every accepted interval \<open>d\<close> satisfies \<open>250 < d < 2000\<close>; the live loop never
  raises; and a gap outside the range leaves the accepted sequence as it was, while
  the beat itself is recorded.
\<close>

theorem accepted_intervals_in_range:
  "(\<forall>d\<in>set (measure_intervals calibration samples). 250 < d \<and> d < 2000) \<and>
   (\<forall>d\<in>set (show_countdown_animation_kubios calibration samples). 250 < d \<and> d < 2000) \<and>
   (\<forall>d\<in>set (show_countdown_animation calibration samples). 250 < d \<and> d < 2000) \<and>
   (\<exists>intervals. live_intervals calibration live_samples = Inr intervals \<and>
      (\<forall>d\<in>set intervals. 250 < d \<and> d < 2000)) \<and>
   (beats \<noteq> [] \<and> \<not> (250 < ticks_diff now (last beats) \<and> ticks_diff now (last beats) < 2000)
      \<longrightarrow> append_beat beats accepted now = (beats @ [now], accepted))"
proof -
  have e: "\<forall>d\<in>set ([] :: int list). plausible d" by simp
  have a: "\<forall>d\<in>set (measure_intervals calibration samples). 250 < d \<and> d < 2000"
    by (simp add: measure_intervals_def measure_intervals_from_def Let_def)
  have b: "\<forall>d\<in>set (show_countdown_animation_kubios calibration samples). 250 < d \<and> d < 2000"
    using kubios_loop_plausible [OF e]
    by (simp add: show_countdown_animation_kubios_def show_countdown_animation_kubios_from_def
        plausible_def)
  have c: "\<forall>d\<in>set (show_countdown_animation calibration samples). 250 < d \<and> d < 2000"
    using animation_loop_plausible [OF e]
    by (simp add: show_countdown_animation_def plausible_def)
  have d: "\<exists>intervals. live_intervals calibration live_samples = Inr intervals \<and>
             (\<forall>d\<in>set intervals. 250 < d \<and> d < 2000)"
    using live_loop_plausible [OF e]
    by (simp add: live_intervals_def plausible_def)
  show ?thesis
    using a b c d append_beat_dropped by blast
qed

theorem accepted_intervals_in_range_witness:
  "measure_intervals [50] [(90, 0), (20, 600), (90, 1200), (20, 1800), (90, 5000)] = [1200] \<and>
   show_countdown_animation_kubios [50] [(90, 0), (20, 600), (90, 1200), (20, 1800), (90, 5000)]
     = [1200] \<and>
   show_countdown_animation [50] [(400, 0), (0, 300), (0, 600), (0, 700), (400, 900)] = [900] \<and>
   live_intervals [50] [(Some 90, 0), (None, 10), (Some 90, 600), (Some 90, 700)] = Inr [600] \<and>
   250 < (1200 :: int) \<and> (1200 :: int) < 2000 \<and>
   append_beat [0, 600] [600] 700 = ([0, 600, 700], [600])"
proof -
  let ?s = "[(90, 0), (20, 600), (90, 1200), (20, 1800), (90, 5000)] :: sample list"
  have thr: "calibrate_threshold [50] = 50"
    by (simp add: calibrate_threshold_def py_int_def)
  have m: "measure_intervals [50] ?s = [1200]"
    by (simp add: measure_intervals_def measure_intervals_from_def thr ticks_diff_def
        TICKS_PERIOD_def upt_rec)
  have k: "show_countdown_animation_kubios [50] ?s = [1200]"
    by (simp add: show_countdown_animation_kubios_def show_countdown_animation_kubios_from_def
        thr append_beat_def ticks_diff_def TICKS_PERIOD_def)
  have a: "show_countdown_animation [50] [(400, 0), (0, 300), (0, 600), (0, 700), (400, 900)] = [900]"
    by (simp add: show_countdown_animation_def thr process_sample_def py_int_def
        ticks_diff_def TICKS_PERIOD_def)
  have l: "live_intervals [50] [(Some 90, 0), (None, 10), (Some 90, 600), (Some 90, 700)]
           = Inr [600]"
    by (simp add: live_intervals_def thr append_beat_def ticks_diff_def TICKS_PERIOD_def
        calculate_bpm_case plausible_def)
  have t: "ticks_diff 700 (last [0, 600]) = 100"
    by (simp add: ticks_diff_def TICKS_PERIOD_def)
  have r: "250 < (1200 :: int) \<and> (1200 :: int) < 2000"
    using accepted_intervals_in_range [of "[50]" ?s] unfolding m by simp
  have d: "append_beat [0, 600] [600] 700 = ([0, 600, 700], [600])"
    using accepted_intervals_in_range [of "[50]" ?s "[]" "[0, 600]" 700 "[600]"] t by simp
  show ?thesis using m k a l r d by simp
qed

section \<open>The subscription callback\<close>

lemma py_in_dict: "py_in k (JObj d) = Inr (map_of d k \<noteq> None)"
  by (simp add: map_of_eq_None_iff)

lemma on_message_never_raises: "\<exists>slot'. on_message msg slot = Inr slot'"
  by (cases "on_message_try msg slot") (simp_all add: on_message_def)

lemma on_message_undecodable: "on_message None slot = Inr None"
  by (simp add: on_message_def on_message_try_def)

lemma on_message_scalar:
  "on_message (Some JNull) slot = Inr None"
  "on_message (Some (JBool b)) slot = Inr None"
  "on_message (Some (JNum r)) slot = Inr None"
  by (simp_all add: on_message_def on_message_try_def)

lemma on_message_list:
  "on_message (Some (JArr xs)) slot = (if JStr ''data'' \<in> set xs then Inr None else Inr slot)"
  by (simp add: on_message_def on_message_try_def)

lemma on_message_string:
  "on_message (Some (JStr s)) slot = (if substring_in ''data'' s then Inr None else Inr slot)"
  by (simp add: on_message_def on_message_try_def)

lemma on_message_no_data:
  "map_of obj ''data'' = None \<Longrightarrow> on_message (Some (JObj obj)) slot = Inr slot"
  by (simp add: on_message_def on_message_try_def py_in_dict del: py_in.simps)

lemma on_message_data_not_dict:
  "map_of obj ''data'' = Some raw \<Longrightarrow> \<not> is_dict raw \<Longrightarrow>
   on_message (Some (JObj obj)) slot = Inr slot"
  by (cases raw) (simp_all add: on_message_def on_message_try_def py_in_dict del: py_in.simps)

lemma on_message_analysis_not_dict:
  "map_of obj ''data'' = Some (JObj d) \<Longrightarrow> map_of d ''analysis'' = Some x \<Longrightarrow> \<not> is_dict x \<Longrightarrow>
   on_message (Some (JObj obj)) slot = Inr None"
  by (cases x)
     (simp_all add: on_message_def on_message_try_def py_in_dict dict_get_def del: py_in.simps)

lemma normalize_required_null:
  "list_ex (\<lambda>key. map_of (normalized_dict a) key = Some JNull)
     [''mean_hr'', ''mean_ppi'', ''rmssd'', ''sdnn''] \<longleftrightarrow>
   (\<exists>k\<in>{''mean_hr_bpm'', ''mean_rr_ms'', ''rmssd_ms'', ''sdnn_ms''}.
      map_of a k = None \<or> map_of a k = Some JNull)"
  by (auto simp: normalized_dict_def dict_get_def split: option.splits)

lemma on_message_analysis_dict:
  assumes "map_of obj ''data'' = Some (JObj d)" "dict_get d ''analysis'' (JObj []) = JObj a"
  shows "on_message (Some (JObj obj)) slot =
           (if \<exists>k\<in>{''mean_hr_bpm'', ''mean_rr_ms'', ''rmssd_ms'', ''sdnn_ms''}.
                 map_of a k = None \<or> map_of a k = Some JNull
            then Inr slot else Inr (Some (normalized_dict a)))"
  using assms
  by (simp add: on_message_def on_message_try_def py_in_dict Let_def normalize_required_null
      del: py_in.simps list_ex_Cons_iff list_ex_Nil_iff)

lemma normalize_fields:
  "map_of (normalized_dict a) ''mean_hr'' = Some (dict_get a ''mean_hr_bpm'' JNull)"
  "map_of (normalized_dict a) ''mean_ppi'' = Some (dict_get a ''mean_rr_ms'' JNull)"
  "map_of (normalized_dict a) ''rmssd'' = Some (dict_get a ''rmssd_ms'' JNull)"
  "map_of (normalized_dict a) ''sdnn'' = Some (dict_get a ''sdnn_ms'' JNull)"
  "map_of (normalized_dict a) ''sns'' = Some (dict_get a ''sns_index'' (JNum 0))"
  "map_of (normalized_dict a) ''pns'' = Some (dict_get a ''pns_index'' (JNum 0))"
  by (simp_all add: normalized_dict_def)

text \<open>
  Claim C5, as the code has it. The callback never raises. What it does to the slot
  \<open>kubios_result\<close> depends on how the message fails. The slot is left unchanged when
  the decoded message is a dict without \<open>data\<close>, a dict whose \<open>data\<close> is not a dict, a
  list or string that does not contain \<open>data\<close>, or a message whose \<open>analysis\<close> dict
  lacks one of \<open>mean_hr_bpm\<close>, \<open>mean_rr_ms\<close>, \<open>rmssd_ms\<close>, \<open>sdnn_ms\<close> (or has \<open>null\<close>
  there). The slot is reset to \<open>None\<close> when the body raises: the message is undecodable,
  is a number, a bool or \<open>null\<close>, is a list or string that contains \<open>data\<close>, or its
  \<open>analysis\<close> is not a dict. A message with the four required keys is stored, with
  \<open>sns\<close> and \<open>pns\<close> set to 0 when \<open>sns_index\<close> and \<open>pns_index\<close> are absent.
\<close>

theorem on_message_outcomes:
  "(\<exists>slot'. on_message msg slot = Inr slot') \<and>
   on_message None slot = Inr None \<and>
   on_message (Some JNull) slot = Inr None \<and>
   on_message (Some (JBool b)) slot = Inr None \<and>
   on_message (Some (JNum r)) slot = Inr None \<and>
   on_message (Some (JArr xs)) slot = (if JStr ''data'' \<in> set xs then Inr None else Inr slot) \<and>
   on_message (Some (JStr s)) slot = (if substring_in ''data'' s then Inr None else Inr slot) \<and>
   (map_of obj ''data'' = None \<longrightarrow> on_message (Some (JObj obj)) slot = Inr slot) \<and>
   (map_of obj ''data'' = Some raw \<and> \<not> is_dict raw \<longrightarrow>
      on_message (Some (JObj obj)) slot = Inr slot) \<and>
   (map_of obj ''data'' = Some (JObj d) \<and> map_of d ''analysis'' = Some x \<and> \<not> is_dict x \<longrightarrow>
      on_message (Some (JObj obj)) slot = Inr None) \<and>
   (map_of obj ''data'' = Some (JObj d) \<and> dict_get d ''analysis'' (JObj []) = JObj a \<longrightarrow>
      on_message (Some (JObj obj)) slot =
        (if \<exists>k\<in>{''mean_hr_bpm'', ''mean_rr_ms'', ''rmssd_ms'', ''sdnn_ms''}.
              map_of a k = None \<or> map_of a k = Some JNull
         then Inr slot else Inr (Some (normalized_dict a)))) \<and>
   (map_of a ''sns_index'' = None \<longrightarrow> map_of (normalized_dict a) ''sns'' = Some (JNum 0)) \<and>
   (map_of a ''pns_index'' = None \<longrightarrow> map_of (normalized_dict a) ''pns'' = Some (JNum 0))"
proof -
  have sns: "map_of a ''sns_index'' = None \<Longrightarrow> map_of (normalized_dict a) ''sns'' = Some (JNum 0)"
    by (simp add: normalize_fields dict_get_def)
  have pns: "map_of a ''pns_index'' = None \<Longrightarrow> map_of (normalized_dict a) ''pns'' = Some (JNum 0)"
    by (simp add: normalize_fields dict_get_def)
  show ?thesis
    using on_message_never_raises [of msg slot] on_message_undecodable [of slot]
      on_message_scalar on_message_list [of xs slot] on_message_string [of s slot]
      on_message_no_data [of obj slot] on_message_data_not_dict [of obj raw slot]
      on_message_analysis_not_dict [of obj d x slot] on_message_analysis_dict [of obj d a slot]
      sns pns
    by blast
qed


theorem on_message_outcomes_witness:
  "on_message (Some (JObj [(''data'', JObj [(''analysis'',
       JObj [(''mean_hr_bpm'', JNum 72), (''mean_rr_ms'', JNum 833),
             (''rmssd_ms'', JNum 40), (''sdnn_ms'', JNum 50)])])])) None
     = Inr (Some [(''mean_hr'', JNum 72), (''mean_ppi'', JNum 833), (''rmssd'', JNum 40),
                  (''sdnn'', JNum 50), (''sns'', JNum 0), (''pns'', JNum 0)]) \<and>
   on_message (Some (JObj [(''data'', JObj [(''analysis'',
       JObj [(''mean_hr_bpm'', JNum 72), (''mean_rr_ms'', JNum 833),
             (''rmssd_ms'', JNum 40)])])])) (Some [(''mean_hr'', JNum 60)])
     = Inr (Some [(''mean_hr'', JNum 60)]) \<and>
   on_message (Some (JObj [(''status'', JStr ''ok'')])) (Some [(''mean_hr'', JNum 60)])
     = Inr (Some [(''mean_hr'', JNum 60)]) \<and>
   on_message (Some (JObj [(''data'', JStr ''late'')])) (Some [(''mean_hr'', JNum 60)])
     = Inr (Some [(''mean_hr'', JNum 60)]) \<and>
   on_message (Some (JObj [(''data'', JObj [(''analysis'', JArr [])])]))
       (Some [(''mean_hr'', JNum 60)])
     = Inr None"
proof -
  let ?full = "[(''mean_hr_bpm'', JNum 72), (''mean_rr_ms'', JNum 833),
                (''rmssd_ms'', JNum 40), (''sdnn_ms'', JNum 50)]"
  let ?part = "[(''mean_hr_bpm'', JNum 72), (''mean_rr_ms'', JNum 833), (''rmssd_ms'', JNum 40)]"
  let ?old = "Some [(''mean_hr'', JNum 60)]"
  have a: "on_message (Some (JObj [(''data'', JObj [(''analysis'', JObj ?full)])])) None
           = Inr (Some (normalized_dict ?full))"
    using on_message_outcomes [where obj = "[(''data'', JObj [(''analysis'', JObj ?full)])]"
        and d = "[(''analysis'', JObj ?full)]" and a = ?full and slot = None]
    by (simp add: dict_get_def)
  have n: "normalized_dict ?full
           = [(''mean_hr'', JNum 72), (''mean_ppi'', JNum 833), (''rmssd'', JNum 40),
              (''sdnn'', JNum 50), (''sns'', JNum 0), (''pns'', JNum 0)]"
    by (simp add: normalized_dict_def dict_get_def)
  have b: "on_message (Some (JObj [(''data'', JObj [(''analysis'', JObj ?part)])])) ?old
           = Inr ?old"
    using on_message_outcomes [where obj = "[(''data'', JObj [(''analysis'', JObj ?part)])]"
        and d = "[(''analysis'', JObj ?part)]" and a = ?part and slot = ?old]
    by (simp add: dict_get_def)
  have c: "on_message (Some (JObj [(''status'', JStr ''ok'')])) ?old = Inr ?old"
    using on_message_outcomes [where obj = "[(''status'', JStr ''ok'')]" and slot = ?old]
    by simp
  have d: "on_message (Some (JObj [(''data'', JStr ''late'')])) ?old = Inr ?old"
    using on_message_outcomes [where obj = "[(''data'', JStr ''late'')]"
        and raw = "JStr ''late''" and slot = ?old]
    by simp
  have e: "on_message (Some (JObj [(''data'', JObj [(''analysis'', JArr [])])])) ?old = Inr None"
    using on_message_outcomes [where obj = "[(''data'', JObj [(''analysis'', JArr [])])]"
        and d = "[(''analysis'', JArr [])]" and x = "JArr []" and slot = ?old]
    by simp
  show ?thesis using a b c d e unfolding n by simp
qed

text \<open>
  Claim C5 as stated fails: with a result in the slot, an undecodable message, or one
  whose \<open>analysis\<close> is a list, empties the slot instead of leaving it unchanged.
\<close>

theorem on_message_reset_counterexample:
  "on_message None (Some [(''mean_hr'', JNum 60), (''mean_ppi'', JNum 1000),
                          (''rmssd'', JNum 30), (''sdnn'', JNum 35),
                          (''sns'', JNum 0), (''pns'', JNum 0)]) = Inr None \<and>
   on_message (Some (JObj [(''data'', JObj [(''analysis'', JArr [])])]))
     (Some [(''mean_hr'', JNum 60), (''mean_ppi'', JNum 1000),
            (''rmssd'', JNum 30), (''sdnn'', JNum 35),
            (''sns'', JNum 0), (''pns'', JNum 0)]) = Inr None"
  by (simp add: on_message_def on_message_try_def dict_get_def)



section \<open>Waiting for the result, and the session\<close>

lemma wait_stale:
  "client st \<Longrightarrow> kubios_result st = Some r \<Longrightarrow>
   wait_for_kubios_result (NoMessage # ps) st = (Inr (Some r), [CheckMsg], st)"
  by simp

lemma wait_message_kept:
  "client st \<Longrightarrow> on_message m (kubios_result st) = Inr (Some r') \<Longrightarrow>
   wait_for_kubios_result (Message m # ps) st
     = (Inr (Some r'), [CheckMsg], st\<lparr>kubios_result := Some r'\<rparr>)"
  by simp

lemma wait_message_reset:
  "client st \<Longrightarrow> on_message m (kubios_result st) = Inr None \<Longrightarrow>
   wait_for_kubios_result (Message m # ps) st
     = (case wait_for_kubios_result ps (st\<lparr>kubios_result := None\<rparr>) of
          (res, evs, st') \<Rightarrow> (res, CheckMsg # evs, st'))"
  by simp

lemma wait_no_message:
  "\<forall>p\<in>set ps. \<forall>m. p \<noteq> Message m \<Longrightarrow> snd (snd (wait_for_kubios_result ps st)) = st"
proof (induction ps)
  case Nil
  show ?case by simp
next
  case (Cons p ps)
  then show ?case
    by (cases p) (auto split: option.splits prod.splits)
qed

lemma send_and_wait_slot:
  assumes "\<forall>q\<in>set (polls p). \<forall>m. q \<noteq> Message m"
  shows "kubios_result (snd (snd (send_and_wait mac p st))) = kubios_result st"
proof -
  have w: "snd (snd (wait_for_kubios_result (polls p) st')) = st'" for st'
    using wait_no_message [OF assms] .
  show ?thesis
    using w [of "st\<lparr>client := True\<rparr>"]
    by (auto simp: send_and_wait_def setup_wifi_and_mqtt_def publish_json_def Let_def
        split: prod.splits sum.splits if_splits)
qed

lemma kubios_analysis_slot:
  "\<forall>p\<in>set ps. \<forall>q\<in>set (polls p). \<forall>m. q \<noteq> Message m \<Longrightarrow>
   kubios_analysis mac ps st = Some (evs, st') \<Longrightarrow>
   kubios_result st' = kubios_result st"
proof (induction ps arbitrary: st evs st')
  case Nil
  then show ?case by simp
next
  case (Cons p ps)
  have q: "\<forall>q\<in>set (polls p). \<forall>m. q \<noteq> Message m" using Cons.prems(1) by simp
  have r: "\<forall>p\<in>set ps. \<forall>q\<in>set (polls p). \<forall>m. q \<noteq> Message m" using Cons.prems(1) by simp
  obtain res evs1 st1 where sw: "send_and_wait mac p st = (res, evs1, st1)"
    by (cases "send_and_wait mac p st")
  have s1: "kubios_result st1 = kubios_result st"
    using send_and_wait_slot [OF q, of mac st] by (simp add: sw)
  show ?case
    using Cons.prems(2) Cons.IH [OF r] s1
    by (auto simp: sw split: if_splits option.splits choice.splits)
qed

text \<open>
  Claim C10, as the code has it, for a call made once \<open>connect_mqtt\<close> has set
  \<open>client\<close>. \<open>wait_for_kubios_result\<close> neither clears the slot on
  entry nor after returning it, and the session writes the slot only through the
  callback: while no message is delivered, the wait and the whole session leave
  \<open>kubios_result\<close> as it was. So a call made while the slot still holds a previous
  result returns that stale result on its first poll if no message is delivered in
  that poll, or if the message delivered is one the callback discards without raising.
  If the first poll delivers a valid message the call returns the new result; if it
  delivers a message on which the callback's body raises, the slot is reset to \<open>None\<close>
  and the polling goes on.
\<close>

theorem stale_result_unless_message:
  "(client st \<and> kubios_result st = Some r \<longrightarrow>
      wait_for_kubios_result (NoMessage # ps) st = (Inr (Some r), [CheckMsg], st)) \<and>
   (client st \<and> kubios_result st = Some r \<and> on_message m (Some r) = Inr (Some r') \<longrightarrow>
      wait_for_kubios_result (Message m # ps) st
        = (Inr (Some r'), [CheckMsg], st\<lparr>kubios_result := Some r'\<rparr>)) \<and>
   (client st \<and> kubios_result st = Some r \<and> on_message m (Some r) = Inr None \<longrightarrow>
      wait_for_kubios_result (Message m # ps) st
        = (case wait_for_kubios_result ps (st\<lparr>kubios_result := None\<rparr>) of
             (res, evs, st') \<Rightarrow> (res, CheckMsg # evs, st'))) \<and>
   ((\<forall>p\<in>set ps. \<forall>m. p \<noteq> Message m) \<longrightarrow> snd (snd (wait_for_kubios_result ps st)) = st) \<and>
   ((\<forall>p\<in>set passes. \<forall>q\<in>set (polls p). \<forall>m. q \<noteq> Message m) \<and>
      kubios_analysis mac passes st = Some (trace, st_end) \<longrightarrow>
      kubios_result st_end = kubios_result st)"
  using wait_stale [where st = st and r = r and ps = ps]
    wait_message_kept [where m = m and st = st and r' = r' and ps = ps]
    wait_message_reset [where m = m and st = st and ps = ps]
    wait_no_message [of ps st] kubios_analysis_slot [of passes mac st trace st_end]
  by (simp del: wait_for_kubios_result.simps)

theorem stale_result_unless_message_witness:
  "wait_for_kubios_result [NoMessage]
     \<lparr>client = True, kubios_result = Some [(''mean_hr'', JNum 60)]\<rparr>
     = (Inr (Some [(''mean_hr'', JNum 60)]), [CheckMsg],
        \<lparr>client = True, kubios_result = Some [(''mean_hr'', JNum 60)]\<rparr>) \<and>
   wait_for_kubios_result [Message (Some (JObj []))]
     \<lparr>client = True, kubios_result = Some [(''mean_hr'', JNum 60)]\<rparr>
     = (Inr (Some [(''mean_hr'', JNum 60)]), [CheckMsg],
        \<lparr>client = True, kubios_result = Some [(''mean_hr'', JNum 60)]\<rparr>) \<and>
   wait_for_kubios_result [Message None]
     \<lparr>client = True, kubios_result = Some [(''mean_hr'', JNum 60)]\<rparr>
     = (Inr None, [CheckMsg], \<lparr>client = True, kubios_result = None\<rparr>) \<and>
   snd (snd (wait_for_kubios_result [SocketError]
     \<lparr>client = True, kubios_result = Some [(''mean_hr'', JNum 60)]\<rparr>))
     = \<lparr>client = True, kubios_result = Some [(''mean_hr'', JNum 60)]\<rparr> \<and>
   kubios_analysis ''AA:BB''
     [\<lparr>collected = [800, 810, 790, 805, 795], wifi_connects = True, publish_raises = False,
       polls = [NoMessage], user_choice = Exit\<rparr>]
     \<lparr>client = False, kubios_result = Some [(''mean_hr'', JNum 60)]\<rparr>
     = Some ([WaitForEncoderPress, CollectPpiData, ShowSendingScreen, Sleep, ConnectWifi,
              ConnectMqtt,
              Publish ''kubios/request''
                (format_kubios_payload ''AA:BB'' (json_of_intervals [800, 810, 790, 805, 795])),
              CheckMsg, HandleKubiosResponse [(''mean_hr'', JNum 60)]],
             \<lparr>client = True, kubios_result = Some [(''mean_hr'', JNum 60)]\<rparr>)"
proof -
  let ?old = "[(''mean_hr'', JNum 60)]"
  let ?st = "\<lparr>client = True, kubios_result = Some ?old\<rparr>"
  let ?p = "\<lparr>collected = [800, 810, 790, 805, 795], wifi_connects = True,
             publish_raises = False, polls = [NoMessage], user_choice = Exit\<rparr>"
  let ?init = "\<lparr>client = False, kubios_result = Some ?old\<rparr>"
  have m1: "on_message (Some (JObj [])) (Some ?old) = Inr (Some ?old)"
    by (simp add: on_message_def on_message_try_def)
  have m2: "on_message None (Some ?old) = Inr None"
    by (simp add: on_message_def on_message_try_def)
  have a: "wait_for_kubios_result [NoMessage] ?st = (Inr (Some ?old), [CheckMsg], ?st)"
    using stale_result_unless_message [where st = ?st and r = ?old and ps = "[]"] by simp
  have b: "wait_for_kubios_result [Message (Some (JObj []))] ?st
           = (Inr (Some ?old), [CheckMsg], ?st)"
    using stale_result_unless_message [where st = ?st and r = ?old and ps = "[]"
        and m = "Some (JObj [])" and r' = ?old] m1
    by simp
  have c: "wait_for_kubios_result [Message None] ?st
           = (Inr None, [CheckMsg], \<lparr>client = True, kubios_result = None\<rparr>)"
    using stale_result_unless_message [where st = ?st and r = ?old and ps = "[]"
        and m = None] m2
    by simp
  have d: "snd (snd (wait_for_kubios_result [SocketError] ?st)) = ?st"
    using stale_result_unless_message [where st = ?st and ps = "[SocketError]"] by simp
  have k: "kubios_analysis ''AA:BB'' [?p] ?init
     = Some ([WaitForEncoderPress, CollectPpiData, ShowSendingScreen, Sleep, ConnectWifi,
              ConnectMqtt,
              Publish ''kubios/request''
                (format_kubios_payload ''AA:BB'' (json_of_intervals [800, 810, 790, 805, 795])),
              CheckMsg, HandleKubiosResponse ?old], ?st)"
    by (simp add: send_and_wait_def setup_wifi_and_mqtt_def publish_json_def Let_def)
  have e: "kubios_result ?st = kubios_result ?init"
    using stale_result_unless_message [where passes = "[?p]" and mac = "''AA:BB''"
        and st = ?init and trace = "[WaitForEncoderPress, CollectPpiData, ShowSendingScreen, Sleep,
          ConnectWifi, ConnectMqtt,
          Publish ''kubios/request''
            (format_kubios_payload ''AA:BB'' (json_of_intervals [800, 810, 790, 805, 795])),
          CheckMsg, HandleKubiosResponse ?old]" and st_end = ?st] k
    by simp
  show ?thesis using a b c d k e by simp
qed

text \<open>
  Claim C10 as stated fails when a message arrives in the first poll: after an
  undecodable message the stale result is gone and the call times out with \<open>None\<close>;
  after a valid message the call returns the new result.
\<close>

theorem stale_result_counterexample:
  "fst (wait_for_kubios_result [Message None, NoMessage]
     \<lparr>client = True, kubios_result = Some [(''mean_hr'', JNum 60), (''mean_ppi'', JNum 1000),
        (''rmssd'', JNum 30), (''sdnn'', JNum 35), (''sns'', JNum 0), (''pns'', JNum 0)]\<rparr>)
     = Inr None \<and>
   fst (wait_for_kubios_result
     [Message (Some (JObj [(''data'', JObj [(''analysis'',
        JObj [(''mean_hr_bpm'', JNum 72), (''mean_rr_ms'', JNum 833),
              (''rmssd_ms'', JNum 40), (''sdnn_ms'', JNum 50)])])]))]
     \<lparr>client = True, kubios_result = Some [(''mean_hr'', JNum 60), (''mean_ppi'', JNum 1000),
        (''rmssd'', JNum 30), (''sdnn'', JNum 35), (''sns'', JNum 0), (''pns'', JNum 0)]\<rparr>)
     = Inr (Some [(''mean_hr'', JNum 72), (''mean_ppi'', JNum 833), (''rmssd'', JNum 40),
                  (''sdnn'', JNum 50), (''sns'', JNum 0), (''pns'', JNum 0)])"
  by (simp add: on_message_def on_message_try_def dict_get_def normalized_dict_def)

lemma wait_events: "set (fst (snd (wait_for_kubios_result ps st))) \<subseteq> {CheckMsg}"
proof (induction ps arbitrary: st)
  case Nil
  show ?case by simp
next
  case (Cons p ps)
  have ih: "\<And>st' res evs st''. wait_for_kubios_result ps st' = (res, evs, st'')
             \<Longrightarrow> set evs \<subseteq> {CheckMsg}"
    using Cons.IH by (metis fst_conv snd_conv)
  show ?case
    by (cases p) (auto split: sum.splits option.splits prod.splits dest: ih)
qed

lemma send_and_wait_publish:
  assumes "Publish topic v \<in> set (fst (snd (send_and_wait mac p st)))"
  shows "topic = ''kubios/request'' \<and>
         v = format_kubios_payload mac (json_of_intervals (collected p))"
proof -
  have w: "Publish topic v \<notin> set (fst (snd (wait_for_kubios_result (polls p) st')))" for st'
    using wait_events [of "polls p" st'] by auto
  show ?thesis
    using assms w [of "st\<lparr>client := True\<rparr>"]
    by (auto simp: send_and_wait_def setup_wifi_and_mqtt_def publish_json_def Let_def
        split: prod.splits sum.splits if_splits)
qed

lemma send_and_wait_publishes:
  assumes "wifi_connects p"
  shows "Publish ''kubios/request'' (format_kubios_payload mac (json_of_intervals (collected p)))
           \<in> set (fst (snd (send_and_wait mac p st)))"
  using assms
  by (auto simp: send_and_wait_def setup_wifi_and_mqtt_def publish_json_def Let_def
      split: prod.splits sum.splits if_splits)

lemma kubios_analysis_publish:
  "kubios_analysis mac ps st = Some (evs, st') \<Longrightarrow> Publish topic v \<in> set evs \<Longrightarrow>
   topic = ''kubios/request'' \<and>
   (\<exists>p\<in>set ps. v = format_kubios_payload mac (json_of_intervals (collected p)))"
proof (induction ps arbitrary: st evs st')
  case Nil
  then show ?case by simp
next
  case (Cons p ps)
  obtain res evs1 st1 where sw: "send_and_wait mac p st = (res, evs1, st1)"
    by (cases "send_and_wait mac p st")
  have here: "Publish topic v \<in> set evs1 \<Longrightarrow>
              topic = ''kubios/request'' \<and>
              v = format_kubios_payload mac (json_of_intervals (collected p))"
    using send_and_wait_publish [of topic v mac p st] by (simp add: sw)
  have "Publish topic v \<in> set evs1 \<or>
        (\<exists>st2 evs2 st3. kubios_analysis mac ps st2 = Some (evs2, st3) \<and>
           Publish topic v \<in> set evs2)"
    using Cons.prems
    by (fastforce simp: sw split: if_splits option.splits choice.splits)
  then show ?case
  proof
    assume "Publish topic v \<in> set evs1"
    then show ?thesis using here by simp
  next
    assume "\<exists>st2 evs2 st3. kubios_analysis mac ps st2 = Some (evs2, st3) \<and>
              Publish topic v \<in> set evs2"
    then obtain st2 evs2 st3
      where "kubios_analysis mac ps st2 = Some (evs2, st3)" "Publish topic v \<in> set evs2"
      by blast
    then show ?thesis using Cons.IH by simp
  qed
qed

lemma kubios_analysis_publishes:
  assumes "5 \<le> length (collected p)" "wifi_connects p"
    and "kubios_analysis mac (p # ps) st = Some (evs, st')"
  shows "Publish ''kubios/request'' (format_kubios_payload mac (json_of_intervals (collected p)))
           \<in> set evs"
proof -
  obtain res evs1 st1 where sw: "send_and_wait mac p st = (res, evs1, st1)"
    by (cases "send_and_wait mac p st")
  have "Publish ''kubios/request'' (format_kubios_payload mac (json_of_intervals (collected p)))
          \<in> set evs1"
    using send_and_wait_publishes [OF assms(2), of mac st] by (simp add: sw)
  then show ?thesis
    using assms(1,3)
    by (auto simp: sw split: if_splits option.splits choice.splits)
qed

lemma payload_wraps:
  "is_dict (format_kubios_payload mac x)"
  "py_getitem (format_kubios_payload mac x) ''data'' = Inr x"
  "format_kubios_payload mac x \<noteq> json_of_intervals ints"
  by (simp_all add: format_kubios_payload_def json_of_intervals_def)

text \<open>
  Claim C4, as the code has it. \<open>kubios_analysis\<close> hands the raw interval list to
  \<open>publish_json\<close>, and \<open>publish_json\<close> wraps it with \<open>format_kubios_payload\<close> before it
  publishes. So every payload the session publishes goes to \<open>kubios/request\<close> and is
  the wrapped request (a dict with \<open>type\<close>, \<open>mac\<close>, \<open>data\<close> and \<open>analysis\<close>) of the intervals
  of one of its passes, never a bare list of intervals; a pass with at least 5
  intervals and a Wi-Fi connection publishes the wrapped request of its intervals. The
  raw list is the \<open>data\<close> entry of the request, and \<open>mac\<close> is \<open>MAC_ADDRESS\<close> without colons.
\<close>

theorem published_payload_is_wrapped:
  "(kubios_analysis mac ps st = Some (evs, st') \<and> Publish topic v \<in> set evs \<longrightarrow>
      topic = ''kubios/request'' \<and>
      (\<exists>p\<in>set ps. v = format_kubios_payload mac (json_of_intervals (collected p))) \<and>
      is_dict v \<and> v \<noteq> json_of_intervals ints) \<and>
   (5 \<le> length (collected p) \<and> wifi_connects p \<and>
      kubios_analysis mac (p # ps) st = Some (evs, st') \<longrightarrow>
      Publish ''kubios/request'' (format_kubios_payload mac (json_of_intervals (collected p)))
        \<in> set evs) \<and>
   py_getitem (format_kubios_payload mac x) ''data'' = Inr x \<and>
   py_getitem (format_kubios_payload mac x) ''mac'' = Inr (JStr (filter (\<lambda>c. c \<noteq> CHR '':'') mac))"
proof -
  have a: "topic = ''kubios/request'' \<and>
      (\<exists>p\<in>set ps. v = format_kubios_payload mac (json_of_intervals (collected p))) \<and>
      is_dict v \<and> v \<noteq> json_of_intervals ints"
    if "kubios_analysis mac ps st = Some (evs, st')" "Publish topic v \<in> set evs"
    using kubios_analysis_publish [OF that] payload_wraps(1,3) by auto
  have b: "py_getitem (format_kubios_payload mac x) ''mac''
           = Inr (JStr (filter (\<lambda>c. c \<noteq> CHR '':'') mac))"
    by (simp add: format_kubios_payload_def)
  show ?thesis
    using a kubios_analysis_publishes [of p mac ps st evs st'] payload_wraps(2) b by blast
qed

theorem published_payload_is_wrapped_witness:
  "kubios_analysis ''AA:BB:CC:DD:EE:FF''
     [\<lparr>collected = [800, 810, 790, 805, 795], wifi_connects = True, publish_raises = False,
       polls = [], user_choice = Exit\<rparr>]
     \<lparr>client = False, kubios_result = None\<rparr>
     = Some ([WaitForEncoderPress, CollectPpiData, ShowSendingScreen, Sleep, ConnectWifi,
              ConnectMqtt,
              Publish ''kubios/request''
                (JObj [(''type'', JStr ''RRI''), (''mac'', JStr ''AABBCCDDEEFF''),
                       (''data'', JArr [JNum 800, JNum 810, JNum 790, JNum 805, JNum 795]),
                       (''analysis'', JObj [(''type'', JStr ''readiness'')])]),
              ShowErrorScreen, ShowMenu],
             \<lparr>client = True, kubios_result = None\<rparr>) \<and>
   is_dict (JObj [(''type'', JStr ''RRI''), (''mac'', JStr ''AABBCCDDEEFF''),
                  (''data'', JArr [JNum 800, JNum 810, JNum 790, JNum 805, JNum 795]),
                  (''analysis'', JObj [(''type'', JStr ''readiness'')])])"
proof -
  let ?p = "\<lparr>collected = [800, 810, 790, 805, 795], wifi_connects = True,
             publish_raises = False, polls = [], user_choice = Exit\<rparr>"
  let ?init = "\<lparr>client = False, kubios_result = None\<rparr>"
  let ?payload = "JObj [(''type'', JStr ''RRI''), (''mac'', JStr ''AABBCCDDEEFF''),
                       (''data'', JArr [JNum 800, JNum 810, JNum 790, JNum 805, JNum 795]),
                       (''analysis'', JObj [(''type'', JStr ''readiness'')])]"
  let ?evs = "[WaitForEncoderPress, CollectPpiData, ShowSendingScreen, Sleep, ConnectWifi,
               ConnectMqtt, Publish ''kubios/request'' ?payload, ShowErrorScreen, ShowMenu]"
  have k: "kubios_analysis ''AA:BB:CC:DD:EE:FF'' [?p] ?init
           = Some (?evs, \<lparr>client = True, kubios_result = None\<rparr>)"
    by (simp add: send_and_wait_def setup_wifi_and_mqtt_def publish_json_def Let_def
        format_kubios_payload_def json_of_intervals_def)
  have m: "Publish ''kubios/request'' ?payload \<in> set ?evs" by simp
  have "is_dict ?payload"
    using published_payload_is_wrapped [where mac = "''AA:BB:CC:DD:EE:FF''" and ps = "[?p]"
        and st = ?init and evs = ?evs and st' = "\<lparr>client = True, kubios_result = None\<rparr>"
        and topic = "''kubios/request''" and v = ?payload] k m
    by blast
  then show ?thesis using k by simp
qed

text \<open>
  Claim C4 as stated fails: called as the session calls it, on the intervals
  800, 810, 790, 805, 795, \<open>publish_json\<close> publishes the wrapped request and not the
  bare list.
\<close>

theorem raw_list_not_published_counterexample:
  "publish_json ''AA:BB:CC:DD:EE:FF'' False ''kubios/request''
     (json_of_intervals [800, 810, 790, 805, 795]) \<lparr>client = True, kubios_result = None\<rparr>
     = (Inr (),
        [Publish ''kubios/request''
           (JObj [(''type'', JStr ''RRI''), (''mac'', JStr ''AABBCCDDEEFF''),
                  (''data'', JArr [JNum 800, JNum 810, JNum 790, JNum 805, JNum 795]),
                  (''analysis'', JObj [(''type'', JStr ''readiness'')])])]) \<and>
   snd (publish_json ''AA:BB:CC:DD:EE:FF'' False ''kubios/request''
     (json_of_intervals [800, 810, 790, 805, 795]) \<lparr>client = True, kubios_result = None\<rparr>)
     \<noteq> [Publish ''kubios/request'' (JArr [JNum 800, JNum 810, JNum 790, JNum 805, JNum 795])]"
  by (simp add: publish_json_def format_kubios_payload_def json_of_intervals_def)

text \<open>
  Claim C9. When the collection of a pass returns fewer than 5 intervals, the session
  shows the error screen and returns: its whole trace is the wait for the button, the
  collection and the error screen, no event of it reaches the network (no Wi-Fi or
  broker connection, no publish, no poll), and the module state is unchanged.
\<close>

theorem too_few_intervals_no_network:
  assumes "length (collected p) < 5"
  shows "kubios_analysis mac (p # ps) st
           = Some ([WaitForEncoderPress, CollectPpiData, ShowErrorScreen], st) \<and>
         (\<forall>evs st'. kubios_analysis mac (p # ps) st = Some (evs, st') \<longrightarrow>
            last evs = ShowErrorScreen \<and> \<not> list_ex network_event evs \<and> st' = st)"
  using assms by simp

theorem too_few_intervals_no_network_witness:
  "length (collected \<lparr>collected = [800, 810, 790, 805], wifi_connects = True,
       publish_raises = False, polls = [NoMessage], user_choice = Retry\<rparr>) < 5 \<and>
   kubios_analysis ''AA:BB:CC:DD:EE:FF''
     [\<lparr>collected = [800, 810, 790, 805], wifi_connects = True, publish_raises = False,
       polls = [NoMessage], user_choice = Retry\<rparr>]
     \<lparr>client = False, kubios_result = None\<rparr>
     = Some ([WaitForEncoderPress, CollectPpiData, ShowErrorScreen],
             \<lparr>client = False, kubios_result = None\<rparr>) \<and>
   \<not> list_ex network_event [WaitForEncoderPress, CollectPpiData, ShowErrorScreen]"
proof -
  let ?p = "\<lparr>collected = [800, 810, 790, 805], wifi_connects = True,
             publish_raises = False, polls = [NoMessage], user_choice = Retry\<rparr>"
  have h: "length (collected ?p) < 5" by simp
  show ?thesis
    using h too_few_intervals_no_network [OF h, of "''AA:BB:CC:DD:EE:FF''" "[]"
        "\<lparr>client = False, kubios_result = None\<rparr>"]
    by simp
qed

end
